theory Spec2Isabelle
  imports Main "HOL-Library.Word"
begin

section \<open>Strings\<close>

text \<open>
  A JavaScript string is a sequence of 16-bit code units; \<open>trim\<close> and the regular
  expressions of the upload route (no \<open>u\<close> flag) work on code units.  Literals of the
  source are written as HOL strings and embedded with \<open>lit\<close>.
\<close>

type_synonym unit16 = "16 word"
type_synonym jsstring = "unit16 list"

definition lit :: "string \<Rightarrow> jsstring" where
  "lit s = map (\<lambda>c. of_nat (of_char c)) s"

text \<open>
  White space of ECMAScript (WhiteSpace and LineTerminator): what \<open>trim\<close> removes and
  what \<open>\s\<close> matches.
\<close>

definition is_space :: "unit16 \<Rightarrow> bool" where
  "is_space c \<longleftrightarrow>
     (0x0009 \<le> c \<and> c \<le> 0x000D) \<or> c = 0x0020 \<or> c = 0x00A0 \<or> c = 0x1680 \<or>
     (0x2000 \<le> c \<and> c \<le> 0x200A) \<or> c = 0x2028 \<or> c = 0x2029 \<or> c = 0x202F \<or>
     c = 0x205F \<or> c = 0x3000 \<or> c = 0xFEFF"

text \<open>The complement of the class \<open>[^a-zA-Z0-9-_]\<close>: the code units that class does not match.\<close>

definition name_char :: "unit16 \<Rightarrow> bool" where
  "name_char c \<longleftrightarrow>
     (0x61 \<le> c \<and> c \<le> 0x7A) \<or> (0x41 \<le> c \<and> c \<le> 0x5A) \<or> (0x30 \<le> c \<and> c \<le> 0x39) \<or>
     c = 0x2D \<or> c = 0x5F"

definition hyphen :: unit16 where
  "hyphen = 0x2D"

text \<open>\<open>String.prototype.trim\<close>: white space removed at both ends.\<close>

definition trim :: "jsstring \<Rightarrow> jsstring" where
  "trim s = rev (dropWhile is_space (rev (dropWhile is_space s)))"

text \<open>
  \<open>.replace(/\s+/g, '-')\<close>: scanning from the left, the greedy \<open>\s+\<close> matches at a
  white-space code unit and takes every white-space code unit that follows; the match
  is replaced by one hyphen and the scan goes on behind it.
\<close>

function replace_spaces :: "jsstring \<Rightarrow> jsstring" where
  "replace_spaces [] = []"
| "replace_spaces (c # cs) =
     (if is_space c then hyphen # replace_spaces (dropWhile is_space cs)
      else c # replace_spaces cs)"
  by pat_completeness auto
termination
  by (relation "measure length") (auto simp: length_dropWhile_le le_imp_less_Suc)

text \<open>\<open>.replace(/[^a-zA-Z0-9-_]/g, '')\<close>: every code unit the class matches is deleted.\<close>

definition strip_invalid :: "jsstring \<Rightarrow> jsstring" where
  "strip_invalid s = filter name_char s"

text \<open>
  \<open>customName.trim().replace(/\s+/g, '-').replace(/[^a-zA-Z0-9-_]/g, '')\<close>, the value of
  \<open>sanitizedName\<close> in every revision of the upload route.
\<close>

definition sanitizedName :: "jsstring \<Rightarrow> jsstring" where
  "sanitizedName customName = strip_invalid (replace_spaces (trim customName))"

subsection \<open>Sanitization as the specification words it\<close>

text \<open>
  The specification describes three steps: trim white space at both ends, replace every
  maximal run of white space by a single hyphen, delete every character outside
  \<open>[A-Za-z0-9_-]\<close>.  The definitions below follow those words and are compared with
  \<open>sanitizedName\<close> further down.  A maximal run is identified by its first code unit:
  a white-space unit that is the first of the string or follows a unit that is not
  white space.
\<close>

fun spec_strip_leading :: "jsstring \<Rightarrow> jsstring" where
  "spec_strip_leading [] = []"
| "spec_strip_leading (c # cs) = (if is_space c then spec_strip_leading cs else c # cs)"

fun spec_strip_trailing :: "jsstring \<Rightarrow> jsstring" where
  "spec_strip_trailing [] = []"
| "spec_strip_trailing (c # cs) =
     (let r = spec_strip_trailing cs in if is_space c \<and> r = [] then [] else c # r)"

definition spec_trim :: "jsstring \<Rightarrow> jsstring" where
  "spec_trim s = spec_strip_trailing (spec_strip_leading s)"

definition run_start :: "jsstring \<Rightarrow> nat \<Rightarrow> bool" where
  "run_start s i \<longleftrightarrow> is_space (s ! i) \<and> (i = 0 \<or> \<not> is_space (s ! (i - 1)))"

definition spec_collapse :: "jsstring \<Rightarrow> jsstring" where
  "spec_collapse s =
     concat (map (\<lambda>i. if is_space (s ! i) then (if run_start s i then [hyphen] else [])
                       else [s ! i]) [0..<length s])"

definition spec_sanitize :: "jsstring \<Rightarrow> jsstring" where
  "spec_sanitize s = filter (\<lambda>c. name_char c) (spec_collapse (spec_trim s))"

text \<open>
  The same collapse as one pass that remembers whether the previous code unit was
  white space; it links the positional definition to the scan of \<open>replace_spaces\<close>.
\<close>

fun collapse_from :: "bool \<Rightarrow> jsstring \<Rightarrow> jsstring" where
  "collapse_from p [] = []"
| "collapse_from p (c # cs) =
     (if is_space c then (if p then [] else [hyphen]) @ collapse_from True cs
      else c # collapse_from False cs)"

section \<open>Requests, responses and stored documents\<close>

text \<open>
  The object \<open>multer\<close> puts into \<open>req.files\<close> for one uploaded part, once the
  storage engine has stored it: \<open>path\<close> is the URL (Cloudinary) or the disk path of the
  stored blob, \<open>filename\<close> the identifier the store assigned to it.
\<close>

record multer_file =
  originalname :: jsstring
  mimetype :: jsstring
  path :: jsstring
  filename :: jsstring

text \<open>
  What the upload route reads from the request: \<open>req.files\<close>, \<open>req.body.customName\<close>
  (\<open>None\<close> when the field is absent), \<open>req.protocol\<close> and \<open>req.get('host')\<close>.
\<close>

record upload_request =
  files :: "multer_file list"
  customName :: "jsstring option"
  protocol :: jsstring
  host :: "jsstring option"

datatype body =
    No_body
  | Json_error string
  | Json_link jsstring
  | Html string
  | Location jsstring
  | Send_file jsstring
  | Piped "8 word list" bool
  | Error_page

text \<open>
  A response: the status, the headers set with \<open>res.setHeader\<close>, and the body.
  \<open>Location u\<close> is \<open>res.redirect(u)\<close>, \<open>Send_file p\<close> is \<open>res.sendFile(p)\<close>,
  \<open>Piped bs done\<close> is a stream piped into the response: the bytes that arrived and
  whether the stream ended normally, \<open>Error_page\<close> is the page the final handler of
  Express writes for an error that no handler of the application took.
\<close>

record response =
  status :: nat
  headers :: "(string \<times> jsstring) list"
  body :: body

definition json_error :: "nat \<Rightarrow> string \<Rightarrow> response" where
  "json_error n msg = \<lparr>status = n, headers = [], body = Json_error msg\<rparr>"

definition json_link :: "nat \<Rightarrow> jsstring \<Rightarrow> response" where
  "json_link n link = \<lparr>status = n, headers = [], body = Json_link link\<rparr>"

definition html :: "nat \<Rightarrow> string \<Rightarrow> response" where
  "html n msg = \<lparr>status = n, headers = [], body = Html msg\<rparr>"

definition redirect :: "jsstring \<Rightarrow> response" where
  "redirect u = \<lparr>status = 302, headers = [], body = Location u\<rparr>"

text \<open>\<open>fileSchema\<close> of \<open>backend.js\<close> (the proxy revision has the same schema).\<close>

record file_doc =
  shortId :: jsstring
  originalName :: "jsstring option"
  fileUrl :: jsstring
  mimeType :: "jsstring option"
  cloudinaryId :: "jsstring option"
  createdAt :: nat

text \<open>\<open>fileSchema\<close> of the local-disk revision: the blob is a file at \<open>filePath\<close>.\<close>

record local_doc =
  shortId_local :: jsstring
  originalName_local :: "jsstring option"
  filePath :: jsstring
  mimeType_local :: "jsstring option"
  createdAt_local :: nat

text \<open>\<open>fileSchema\<close> of the revision that stores the Cloudinary resource type.\<close>

record typed_doc =
  shortId_typed :: jsstring
  originalName_typed :: "jsstring option"
  fileUrl_typed :: jsstring
  cloudinaryId_typed :: "jsstring option"
  resourceType :: jsstring
  createdAt_typed :: nat

text \<open>The paths marked \<open>required: true\<close>; Mongoose rejects an empty string there.\<close>

definition file_doc_required :: "file_doc \<Rightarrow> bool" where
  "file_doc_required d \<longleftrightarrow> shortId d \<noteq> [] \<and> fileUrl d \<noteq> []"

definition local_doc_required :: "local_doc \<Rightarrow> bool" where
  "local_doc_required d \<longleftrightarrow> shortId_local d \<noteq> [] \<and> filePath d \<noteq> []"

definition typed_doc_required :: "typed_doc \<Rightarrow> bool" where
  "typed_doc_required d \<longleftrightarrow> shortId_typed d \<noteq> [] \<and> fileUrl_typed d \<noteq> [] \<and> resourceType d \<noteq> []"

section \<open>The registry, the blob store and what a request cannot control\<close>

text \<open>The configuration object of the \<open>axios\<close> call in the proxy revision.\<close>

record axios_config =
  http_method :: string
  url :: jsstring
  responseType :: string
  timeout :: nat

text \<open>
  The stream \<open>axios\<close> resolves with: the bytes it delivers, and whether it then emits
  \<open>error\<close> instead of ending.
\<close>

datatype upstream = Upstream (delivered: "8 word list") (broken: bool)

text \<open>
  What a rejected promise or a throwing call carries.  The \<open>catch\<close> blocks read at most
  \<open>error.code\<close> and \<open>error.response.status\<close>.
\<close>

datatype error =
    Db_error
  | Validation_error
  | Duplicate_key
  | Cloudinary_error
  | Axios_error "string option" "nat option"
  | Header_error string

fun error_code :: "error \<Rightarrow> string option" where
  "error_code (Axios_error c r) = c"
| "error_code (Header_error c) = Some c"
| "error_code _ = None"

fun error_response_status :: "error \<Rightarrow> nat option" where
  "error_response_status (Axios_error c r) = r"
| "error_response_status _ = None"

text \<open>An operation on the blob store; the world keeps the list of those attempted.\<close>

datatype blob_op =
    Blob_write jsstring
  | Blob_destroy jsstring
  | Blob_read jsstring
  | Blob_fetch axios_config

text \<open>
  The durable state: the documents of the \<open>File\<close> collection, the identifiers of the
  blobs in the store, and the blob operations attempted so far.
\<close>

record 'd world =
  registry :: "'d list"
  blobs :: "jsstring set"
  blob_log :: "blob_op list"

text \<open>
  What one request meets and cannot control: whether \<open>findOne\<close>, \<open>save\<close> and
  \<open>destroy\<close> are rejected by a fault; the documents other requests commit while this
  one waits between its \<open>findOne\<close> and its \<open>save\<close>; what \<open>nanoid\<close> returns for a
  size; the clock; the environment variables; the outcome of the \<open>axios\<close> call.
\<close>

record 'd env =
  find_fails :: bool
  save_fails :: bool
  destroy_fails :: bool
  concurrent :: "'d list"
  nanoid :: "nat \<Rightarrow> jsstring"
  now :: nat
  RENDER_EXTERNAL_URL :: "jsstring option"
  PORT_env :: "jsstring option"
  axios :: "axios_config \<Rightarrow> error + upstream"

text \<open>Truthiness of a value that is a string or \<open>undefined\<close>.\<close>

definition truthy :: "jsstring option \<Rightarrow> bool" where
  "truthy v = (case v of None \<Rightarrow> False | Some s \<Rightarrow> s \<noteq> [])"

text \<open>A string or \<open>undefined\<close> inside a template literal.\<close>

definition template :: "jsstring option \<Rightarrow> jsstring" where
  "template v = (case v of None \<Rightarrow> lit ''undefined'' | Some s \<Rightarrow> s)"

text \<open>\<open>File.findOne({ shortId: sid })\<close>; \<open>key\<close> reads the \<open>shortId\<close> of a document.\<close>

definition findOne :: "('d \<Rightarrow> jsstring) \<Rightarrow> 'd env \<Rightarrow> 'd list \<Rightarrow> jsstring \<Rightarrow> error + 'd option" where
  "findOne key e docs sid =
     (if find_fails e then Inl Db_error else Inr (find (\<lambda>d. key d = sid) docs))"

text \<open>
  \<open>newFile.save()\<close>: validation of the required paths, then the insert, which the unique
  index on \<open>shortId\<close> rejects when a document with that \<open>shortId\<close> exists.
\<close>

definition save :: "('d \<Rightarrow> jsstring) \<Rightarrow> ('d \<Rightarrow> bool) \<Rightarrow> 'd env \<Rightarrow> 'd list \<Rightarrow> 'd \<Rightarrow> error + 'd list" where
  "save key required e docs d =
     (if \<not> required d then Inl Validation_error
      else if save_fails e then Inl Db_error
      else if key d \<in> set (map key docs) then Inl Duplicate_key
      else Inr (docs @ [d]))"

text \<open>
  The middleware \<open>upload.any()\<close> runs before the route's handler: the storage engine
  stores every file part of the request, and the handler sees the result in \<open>req.files\<close>.
\<close>

definition upload_any :: "'d world \<Rightarrow> upload_request \<Rightarrow> 'd world" where
  "upload_any w req =
     w\<lparr>blobs := blobs w \<union> set (map filename (files req)),
       blob_log := blob_log w @ map (\<lambda>f. Blob_write (filename f)) (files req)\<rparr>"

text \<open>
  The same middleware over \<open>multer.diskStorage\<close>, in the local-disk revision: every
  file part is written to the disk, where it is found again by its \<open>path\<close>.
\<close>

definition upload_any_disk :: "'d world \<Rightarrow> upload_request \<Rightarrow> 'd world" where
  "upload_any_disk w req =
     w\<lparr>blobs := blobs w \<union> set (map path (files req)),
       blob_log := blob_log w @ map (\<lambda>f. Blob_write (path f)) (files req)\<rparr>"

text \<open>\<open>cloudinary.uploader.destroy(public_id)\<close>: deletes the blob, or is rejected.\<close>

definition destroy :: "'d env \<Rightarrow> 'd world \<Rightarrow> jsstring \<Rightarrow> error option \<times> 'd world" where
  "destroy e w public_id =
     (let w' = w\<lparr>blob_log := blob_log w @ [Blob_destroy public_id]\<rparr>
      in if destroy_fails e then (Some Cloudinary_error, w')
         else (None, w'\<lparr>blobs := blobs w - {public_id}\<rparr>))"

text \<open>\<open>const PORT = process.env.PORT || 3000\<close>, as it prints in a template literal.\<close>

definition PORT :: "'d env \<Rightarrow> jsstring" where
  "PORT e = (if truthy (PORT_env e) then the (PORT_env e) else lit ''3000'')"

text \<open>\<open>process.env.RENDER_EXTERNAL_URL || `http://localhost:${PORT}`\<close>\<close>

definition base_url :: "'d env \<Rightarrow> jsstring" where
  "base_url e =
     (if truthy (RENDER_EXTERNAL_URL e) then the (RENDER_EXTERNAL_URL e)
      else lit ''http://localhost:'' @ PORT e)"

section \<open>The upload route\<close>

text \<open>
  How the \<open>if (customName) ... else ...\<close> statement of the handler ends: it throws,
  it returns a response, or it leaves a value in \<open>shortId\<close>.
\<close>

datatype outcome = Throw error | Return response | Value jsstring

text \<open>
  The statement \<open>if (customName) { ... } else { shortId = nanoid(8); }\<close> of
  \<open>backend.js\<close>; the proxy revision and the resource-type revision have the same
  statement.
\<close>

definition resolve_shortId ::
  "('d \<Rightarrow> jsstring) \<Rightarrow> 'd env \<Rightarrow> 'd world \<Rightarrow> upload_request \<Rightarrow> multer_file \<Rightarrow> outcome \<times> 'd world" where
  "resolve_shortId key e w req file =
     (if truthy (customName req) then
        (let sanitized = sanitizedName (the (customName req)) in
         if sanitized = [] then
           (Return (json_error 400 ''Custom name contains invalid characters.''), w)
         else
           (case findOne key e (registry w) sanitized of
              Inl err \<Rightarrow> (Throw err, w)
            | Inr (Some existingFile) \<Rightarrow>
                (case destroy e w (filename file) of
                   (Some err, w') \<Rightarrow> (Throw err, w')
                 | (None, w') \<Rightarrow>
                     (Return (json_error 409 ''This custom link name is already taken.''), w'))
            | Inr None \<Rightarrow> (Value sanitized, w)))
      else (Value (nanoid e 8), w))"

text \<open>The same statement in the local-disk revision: no blob is deleted when the name is taken.\<close>

definition resolve_shortId_local ::
  "local_doc env \<Rightarrow> local_doc world \<Rightarrow> upload_request \<Rightarrow> outcome \<times> local_doc world" where
  "resolve_shortId_local e w req =
     (if truthy (customName req) then
        (let sanitized = sanitizedName (the (customName req)) in
         if sanitized = [] then
           (Return (json_error 400 ''Custom name contains invalid characters.''), w)
         else
           (case findOne shortId_local e (registry w) sanitized of
              Inl err \<Rightarrow> (Throw err, w)
            | Inr (Some existingFile) \<Rightarrow>
                (Return (json_error 409 ''This custom link name is already taken.''), w)
            | Inr None \<Rightarrow> (Value sanitized, w)))
      else (Value (nanoid e 8), w))"

text \<open>
  The body of the \<open>try\<close> block of \<open>backend.js\<close>: the statement above, then the new
  document, \<open>save\<close> and the response with the link.  \<open>save\<close> meets the registry as the
  concurrent commits have left it.
\<close>

definition upload_try ::
  "file_doc env \<Rightarrow> file_doc world \<Rightarrow> upload_request \<Rightarrow> multer_file \<Rightarrow> (error + response) \<times> file_doc world" where
  "upload_try e w req file =
     (case resolve_shortId shortId e w req file of
        (Throw err, w1) \<Rightarrow> (Inl err, w1)
      | (Return res, w1) \<Rightarrow> (Inr res, w1)
      | (Value sid, w1) \<Rightarrow>
          (let newFile = \<lparr>shortId = sid, originalName = Some (originalname file),
                          fileUrl = path file, mimeType = Some (mimetype file),
                          cloudinaryId = Some (filename file), createdAt = now e\<rparr>;
               docs = registry w1 @ concurrent e
           in case save shortId file_doc_required e docs newFile of
                Inl err \<Rightarrow> (Inl err, w1\<lparr>registry := docs\<rparr>)
              | Inr docs' \<Rightarrow>
                  (Inr (json_link 200 (base_url e @ lit ''/file/'' @ shortId newFile)),
                   w1\<lparr>registry := docs'\<rparr>)))"

text \<open>The handler of \<open>POST /upload\<close> in \<open>backend.js\<close> and in the proxy revision.\<close>

definition upload_handler ::
  "file_doc env \<Rightarrow> file_doc world \<Rightarrow> upload_request \<Rightarrow> response \<times> file_doc world" where
  "upload_handler e w req =
     (case files req of
        [] \<Rightarrow> (json_error 400 ''No file was uploaded.'', w)
      | file # _ \<Rightarrow>
          (case upload_try e w req file of
             (Inr res, w') \<Rightarrow> (res, w')
           | (Inl err, w') \<Rightarrow> (json_error 500 ''Server error while creating link.'', w')))"

text \<open>\<open>app.post('/upload', upload.any(), handler)\<close>: the middleware, then the handler.\<close>

definition post_upload ::
  "file_doc env \<Rightarrow> file_doc world \<Rightarrow> upload_request \<Rightarrow> response \<times> file_doc world" where
  "post_upload e w req = upload_handler e (upload_any w req) req"

text \<open>The local-disk revision: the link is built from the request's protocol and host.\<close>

definition upload_try_local ::
  "local_doc env \<Rightarrow> local_doc world \<Rightarrow> upload_request \<Rightarrow> multer_file \<Rightarrow> (error + response) \<times> local_doc world" where
  "upload_try_local e w req file =
     (case resolve_shortId_local e w req of
        (Throw err, w1) \<Rightarrow> (Inl err, w1)
      | (Return res, w1) \<Rightarrow> (Inr res, w1)
      | (Value sid, w1) \<Rightarrow>
          (let newFile = \<lparr>shortId_local = sid, originalName_local = Some (originalname file),
                          filePath = path file, mimeType_local = Some (mimetype file),
                          createdAt_local = now e\<rparr>;
               docs = registry w1 @ concurrent e
           in case save shortId_local local_doc_required e docs newFile of
                Inl err \<Rightarrow> (Inl err, w1\<lparr>registry := docs\<rparr>)
              | Inr docs' \<Rightarrow>
                  (Inr (json_link 200
                     (protocol req @ lit ''://'' @ template (host req) @ lit ''/file/''
                        @ shortId_local newFile)),
                   w1\<lparr>registry := docs'\<rparr>)))"

definition upload_handler_local ::
  "local_doc env \<Rightarrow> local_doc world \<Rightarrow> upload_request \<Rightarrow> response \<times> local_doc world" where
  "upload_handler_local e w req =
     (case files req of
        [] \<Rightarrow> (json_error 400 ''No file was uploaded.'', w)
      | file # _ \<Rightarrow>
          (case upload_try_local e w req file of
             (Inr res, w') \<Rightarrow> (res, w')
           | (Inl err, w') \<Rightarrow> (json_error 500 ''Server error while creating link.'', w')))"

definition post_upload_local ::
  "local_doc env \<Rightarrow> local_doc world \<Rightarrow> upload_request \<Rightarrow> response \<times> local_doc world" where
  "post_upload_local e w req = upload_handler_local e (upload_any_disk w req) req"

text \<open>\<open>String.prototype.includes\<close>\<close>

fun js_includes :: "jsstring \<Rightarrow> jsstring \<Rightarrow> bool" where
  "js_includes [] t = (t = [])"
| "js_includes (c # cs) t = (take (length t) (c # cs) = t \<or> js_includes cs t)"

text \<open>
  The resource-type revision: the check for a file is inside the \<open>try\<close> block, the
  resource type is read off the blob's URL, and an error goes to the global error handler.
\<close>

definition upload_try_typed ::
  "typed_doc env \<Rightarrow> typed_doc world \<Rightarrow> upload_request \<Rightarrow> (error + response) \<times> typed_doc world" where
  "upload_try_typed e w req =
     (case files req of
        [] \<Rightarrow> (Inr (json_error 400 ''No file was uploaded.''), w)
      | file # _ \<Rightarrow>
          (case resolve_shortId shortId_typed e w req file of
             (Throw err, w1) \<Rightarrow> (Inl err, w1)
           | (Return res, w1) \<Rightarrow> (Inr res, w1)
           | (Value sid, w1) \<Rightarrow>
               (let rtype = (if js_includes (path file) (lit ''/raw/upload'') then lit ''raw''
                             else if js_includes (path file) (lit ''/video/upload'') then lit ''video''
                             else lit ''image'');
                    newFile = \<lparr>shortId_typed = sid, originalName_typed = Some (originalname file),
                               fileUrl_typed = path file, cloudinaryId_typed = Some (filename file),
                               resourceType = rtype, createdAt_typed = now e\<rparr>;
                    docs = registry w1 @ concurrent e
                in case save shortId_typed typed_doc_required e docs newFile of
                     Inl err \<Rightarrow> (Inl err, w1\<lparr>registry := docs\<rparr>)
                   | Inr docs' \<Rightarrow>
                       (Inr (json_link 200 (base_url e @ lit ''/file/'' @ shortId_typed newFile)),
                        w1\<lparr>registry := docs'\<rparr>))))"

text \<open>The global error handler registered with \<open>app.use\<close>.\<close>

definition error_handler :: "error \<Rightarrow> response" where
  "error_handler err = json_error 500 ''An unexpected server error occurred.''"

definition upload_handler_typed ::
  "typed_doc env \<Rightarrow> typed_doc world \<Rightarrow> upload_request \<Rightarrow> response \<times> typed_doc world" where
  "upload_handler_typed e w req =
     (case upload_try_typed e w req of
        (Inr res, w') \<Rightarrow> (res, w')
      | (Inl err, w') \<Rightarrow> (error_handler err, w'))"

definition post_upload_typed ::
  "typed_doc env \<Rightarrow> typed_doc world \<Rightarrow> upload_request \<Rightarrow> response \<times> typed_doc world" where
  "post_upload_typed e w req = upload_handler_typed e (upload_any w req) req"

section \<open>The download route\<close>

text \<open>The response object before the handler has touched it.\<close>

definition fresh_response :: response where
  "fresh_response = \<lparr>status = 200, headers = [], body = No_body\<rparr>"

text \<open>
  \<open>res.setHeader(name, value)\<close> throws when the value is \<open>undefined\<close> or holds a
  code unit that is not allowed in a header value.
\<close>

definition valid_header_value :: "jsstring \<Rightarrow> bool" where
  "valid_header_value v =
     list_all (\<lambda>c. c = 0x09 \<or> (0x20 \<le> c \<and> c \<le> 0x7E) \<or> (0x80 \<le> c \<and> c \<le> 0xFF)) v"

definition setHeader :: "response \<Rightarrow> string \<Rightarrow> jsstring option \<Rightarrow> error + response" where
  "setHeader res name v =
     (case v of
        None \<Rightarrow> Inl (Header_error ''ERR_HTTP_INVALID_HEADER_VALUE'')
      | Some x \<Rightarrow>
          if valid_header_value x then Inr (res\<lparr>headers := headers res @ [(name, x)]\<rparr>)
          else Inl (Header_error ''ERR_INVALID_CHAR''))"

definition not_found_page :: string where
  "not_found_page =
     ''<h1>File not found</h1><p>The link may be incorrect or the file has been removed.</p>''"

text \<open>\<open>GET /file/:shortId\<close> in \<open>backend.js\<close>: a redirect to the blob's URL.\<close>

definition get_file :: "file_doc env \<Rightarrow> file_doc world \<Rightarrow> jsstring \<Rightarrow> response \<times> file_doc world" where
  "get_file e w sid =
     (case findOne shortId e (registry w) sid of
        Inl err \<Rightarrow> (html 500 ''<h1>Server error</h1>'', w)
      | Inr None \<Rightarrow> (html 404 not_found_page, w)
      | Inr (Some file) \<Rightarrow> (redirect (fileUrl file), w))"

text \<open>
  \<open>res.sendFile(p)\<close>: the file at \<open>p\<close> is streamed into the response; when there is
  no such file the error goes past the handler to the final handler of Express, which
  answers 404 with its own page and its own content type.
\<close>

definition sendFile :: "'d world \<Rightarrow> response \<Rightarrow> jsstring \<Rightarrow> response" where
  "sendFile w res p =
     (if p \<in> blobs w then res\<lparr>body := Send_file p\<rparr>
      else \<lparr>status = 404, headers = [], body = Error_page\<rparr>)"

text \<open>
  The local-disk revision: the content type is set from the document and the file at
  \<open>filePath\<close> (resolved against the working directory) is sent.
\<close>

definition get_file_local ::
  "local_doc env \<Rightarrow> local_doc world \<Rightarrow> jsstring \<Rightarrow> response \<times> local_doc world" where
  "get_file_local e w sid =
     (case findOne shortId_local e (registry w) sid of
        Inl err \<Rightarrow> (html 500 ''<h1>Server error</h1>'', w)
      | Inr None \<Rightarrow> (html 404 not_found_page, w)
      | Inr (Some file) \<Rightarrow>
          (case setHeader fresh_response ''Content-Type'' (mimeType_local file) of
             Inl err \<Rightarrow> (html 500 ''<h1>Server error</h1>'', w)
           | Inr res \<Rightarrow>
               (sendFile w res (filePath file),
                w\<lparr>blob_log := blob_log w @ [Blob_read (filePath file)]\<rparr>)))"

text \<open>
  The \<open>catch\<close> block of the proxy revision.  \<open>res.status(n).send(page)\<close> writes the
  status and the page into the response as it stands: a header the handler has set
  before the error stays.
\<close>

definition proxy_catch :: "response \<Rightarrow> error \<Rightarrow> response" where
  "proxy_catch res err =
     (if error_code err = Some ''ECONNABORTED'' then
        res\<lparr>status := 504,
            body := Html ''<h1>Gateway Timeout</h1><p>The server took too long to retrieve the file from storage.</p>''\<rparr>
      else if error_response_status err = Some 404 then
        res\<lparr>status := 404,
            body := Html ''<h1>File not found on storage</h1><p>The file may have been deleted.</p>''\<rparr>
      else res\<lparr>status := 500, body := Html ''<h1>Server error while retrieving file</h1>''\<rparr>)"

text \<open>
  \<open>response.data.pipe(res)\<close> together with the \<open>error\<close> listener: a stream that breaks
  before any byte went out finds the headers unsent and a 500 page is sent; one that
  breaks later leaves the response cut short.
\<close>

definition pipe :: "upstream \<Rightarrow> response \<Rightarrow> response" where
  "pipe data res =
     (if broken data \<and> delivered data = [] then
        res\<lparr>status := 500, body := Html ''<h1>Error during file stream</h1>''\<rparr>
      else res\<lparr>body := Piped (delivered data) (\<not> broken data)\<rparr>)"

text \<open>The rejection of an \<open>axios\<close> call whose timeout has passed.\<close>

definition axios_timeout :: error where
  "axios_timeout = Axios_error (Some ''ECONNABORTED'') None"

text \<open>The value of the \<open>Content-Disposition\<close> header; \<open>0x22\<close> is the double quote.\<close>

definition attachment :: "jsstring option \<Rightarrow> jsstring" where
  "attachment name = lit ''attachment; filename='' @ [0x22] @ template name @ [0x22]"

text \<open>\<open>GET /file/:shortId\<close> in the proxy revision.\<close>

definition get_file_proxy ::
  "file_doc env \<Rightarrow> file_doc world \<Rightarrow> jsstring \<Rightarrow> response \<times> file_doc world" where
  "get_file_proxy e w sid =
     (case findOne shortId e (registry w) sid of
        Inl err \<Rightarrow> (proxy_catch fresh_response err, w)
      | Inr None \<Rightarrow> (html 404 not_found_page, w)
      | Inr (Some file) \<Rightarrow>
          (let cfg = \<lparr>http_method = ''GET'', url = fileUrl file, responseType = ''stream'',
                      timeout = 15000\<rparr>;
               w1 = w\<lparr>blob_log := blob_log w @ [Blob_fetch cfg]\<rparr>
           in case axios e cfg of
                Inl err \<Rightarrow> (proxy_catch fresh_response err, w1)
              | Inr data \<Rightarrow>
                  (case setHeader fresh_response ''Content-Type''
                          (if truthy (mimeType file) then mimeType file
                           else Some (lit ''application/octet-stream'')) of
                     Inl err \<Rightarrow> (proxy_catch fresh_response err, w1)
                   | Inr res1 \<Rightarrow>
                       (case setHeader res1 ''Content-Disposition''
                               (Some (attachment (originalName file))) of
                          Inl err \<Rightarrow> (proxy_catch res1 err, w1)
                        | Inr res2 \<Rightarrow> (pipe data res2, w1)))))"

text \<open>
  The request the proxy revision sends for a document, and the content type it announces;
  both as they stand in \<open>get_file_proxy\<close>, named for the statements about it.
\<close>

definition proxy_request :: "file_doc \<Rightarrow> axios_config" where
  "proxy_request file =
     \<lparr>http_method = ''GET'', url = fileUrl file, responseType = ''stream'', timeout = 15000\<rparr>"

definition proxy_content_type :: "file_doc \<Rightarrow> jsstring" where
  "proxy_content_type file =
     (if truthy (mimeType file) then the (mimeType file) else lit ''application/octet-stream'')"

section \<open>The identifier generator\<close>

text \<open>
  Modelled from the spec: the alphabet of \<open>nanoid\<close>, a function of the package of that
  name, whose code is not among the sources.  The specification calls the alphabet
  URL-safe; it is taken to be the 64 characters \<open>A-Z\<close>, \<open>a-z\<close>, \<open>0-9\<close>, \<open>_\<close>
  and \<open>-\<close>.
\<close>

definition url_alphabet :: string where
  "url_alphabet = ''ABCDEFGHIJKLMNOPQRSTUVWXYZabcdefghijklmnopqrstuvwxyz0123456789_-''"

text \<open>
  Modelled from the spec: \<open>nanoid\<close> itself, missing for the same reason.  The
  specification says of \<open>generateCandidateId\<close>: it produces a short, URL-safe,
  randomized identifier of fixed length, 8 characters drawn from a URL-safe alphabet.
  \<open>rnd\<close> is the source of randomness, one draw for each character; \<open>n\<close> is the
  length asked for.
\<close>

definition generateCandidateId :: "(nat \<Rightarrow> nat) \<Rightarrow> nat \<Rightarrow> jsstring" where
  "generateCandidateId rnd n = map (\<lambda>i. lit url_alphabet ! (rnd i mod 64)) [0..<n]"

section \<open>A small deployment used in the examples\<close>

definition demo_doc :: file_doc where
  "demo_doc = \<lparr>shortId = lit ''demo'', originalName = Some (lit ''cv.pdf''),
               fileUrl = lit ''https://res.example/raw/upload/b0.pdf'',
               mimeType = Some (lit ''application/pdf''), cloudinaryId = Some (lit ''b0''),
               createdAt = 1\<rparr>"

definition demo_world :: "file_doc world" where
  "demo_world = \<lparr>registry = [demo_doc], blobs = {lit ''b0''}, blob_log = []\<rparr>"

definition demo_env :: "file_doc env" where
  "demo_env = \<lparr>find_fails = False, save_fails = False, destroy_fails = False, concurrent = [],
               nanoid = generateCandidateId (\<lambda>i. 7 * i + 3), now = 2,
               RENDER_EXTERNAL_URL = None, PORT_env = None,
               axios = (\<lambda>cfg. Inr (Upstream [0x25, 0x50, 0x44, 0x46] False))\<rparr>"

definition demo_file :: multer_file where
  "demo_file = \<lparr>originalname = lit ''notes.txt'', mimetype = lit ''text/plain'',
                 path = lit ''https://res.example/raw/upload/b1.txt'', filename = lit ''b1''\<rparr>"

definition demo_request :: "jsstring option \<Rightarrow> upload_request" where
  "demo_request name = \<lparr>files = [demo_file], customName = name, protocol = lit ''http'',
                         host = Some (lit ''localhost:3000'')\<rparr>"

definition demo_local_doc :: local_doc where
  "demo_local_doc = \<lparr>shortId_local = lit ''demo'', originalName_local = Some (lit ''cv.pdf''),
                     filePath = lit ''uploads/1-2.pdf'',
                     mimeType_local = Some (lit ''application/pdf''), createdAt_local = 1\<rparr>"

definition demo_local_world :: "local_doc world" where
  "demo_local_world =
     \<lparr>registry = [demo_local_doc], blobs = {lit ''uploads/1-2.pdf''}, blob_log = []\<rparr>"

definition demo_local_env :: "local_doc env" where
  "demo_local_env = \<lparr>find_fails = False, save_fails = False, destroy_fails = False,
                     concurrent = [], nanoid = generateCandidateId (\<lambda>i. 7 * i + 3), now = 2,
                     RENDER_EXTERNAL_URL = None, PORT_env = None,
                     axios = (\<lambda>cfg. Inl (Axios_error None None))\<rparr>"

definition demo_typed_doc :: typed_doc where
  "demo_typed_doc = \<lparr>shortId_typed = lit ''demo'', originalName_typed = Some (lit ''cv.pdf''),
                     fileUrl_typed = lit ''https://res.example/raw/upload/b0.pdf'',
                     cloudinaryId_typed = Some (lit ''b0''), resourceType = lit ''raw'',
                     createdAt_typed = 1\<rparr>"

definition demo_typed_world :: "typed_doc world" where
  "demo_typed_world = \<lparr>registry = [demo_typed_doc], blobs = {lit ''b0''}, blob_log = []\<rparr>"

definition demo_typed_env :: "typed_doc env" where
  "demo_typed_env = \<lparr>find_fails = False, save_fails = False, destroy_fails = False,
                     concurrent = [], nanoid = generateCandidateId (\<lambda>i. 7 * i + 3), now = 2,
                     RENDER_EXTERNAL_URL = None, PORT_env = None,
                     axios = (\<lambda>cfg. Inl (Axios_error None None))\<rparr>"

text \<open>Whether a blob operation is a write.\<close>

fun is_write :: "blob_op \<Rightarrow> bool" where
  "is_write (Blob_write b) = True"
| "is_write _ = False"

section \<open>Properties of sanitization\<close>

lemma name_char_not_space: "name_char c \<Longrightarrow> \<not> is_space c"
  unfolding name_char_def is_space_def by (auto simp: word_le_nat_alt)

lemma trim_no_space: "\<forall>c\<in>set s. \<not> is_space c \<Longrightarrow> trim s = s"
  by (cases s rule: rev_cases) (auto simp: trim_def dropWhile_append3 dropWhile_eq_Nil_conv)

lemma replace_spaces_no_space: "\<forall>c\<in>set s. \<not> is_space c \<Longrightarrow> replace_spaces s = s"
  by (induction s) auto

lemma sanitizedName_name_chars: "\<forall>c\<in>set (sanitizedName s). name_char c"
  by (simp add: sanitizedName_def strip_invalid_def)

lemma sanitizedName_fixed:
  assumes "\<forall>c\<in>set s. name_char c"
  shows "sanitizedName s = s"
proof -
  from assms have ns: "\<forall>c\<in>set s. \<not> is_space c"
    by (blast dest: name_char_not_space)
  then have "replace_spaces (trim s) = s"
    by (simp add: trim_no_space replace_spaces_no_space)
  with assms show ?thesis
    by (simp add: sanitizedName_def strip_invalid_def)
qed

text \<open>
  Claim C6.  Sanitization is idempotent: for every custom name, sanitizing the
  sanitized name gives the sanitized name back.
\<close>

theorem sanitizedName_idempotent:
  "sanitizedName (sanitizedName name) = sanitizedName name"
  by (rule sanitizedName_fixed) (rule sanitizedName_name_chars)

theorem sanitizedName_idempotent_witness:
  "sanitizedName (sanitizedName (lit ''  my  resume (v2).pdf  '')) = lit ''my-resume-v2pdf''"
proof -
  have "sanitizedName (lit ''  my  resume (v2).pdf  '') = lit ''my-resume-v2pdf''"
    by (simp add: sanitizedName_def lit_def trim_def is_space_def name_char_def
        strip_invalid_def hyphen_def)
  with sanitizedName_idempotent [of "lit ''  my  resume (v2).pdf  ''"] show ?thesis
    by simp
qed

subsection \<open>The source agrees with the specification's three steps\<close>

lemma spec_strip_leading_eq: "spec_strip_leading s = dropWhile is_space s"
  by (induction s) auto

lemma spec_strip_trailing_eq: "spec_strip_trailing s = rev (dropWhile is_space (rev s))"
  by (induction s) (auto simp: dropWhile_append Let_def)

lemma spec_trim_eq: "spec_trim s = trim s"
  by (simp add: spec_trim_def trim_def spec_strip_leading_eq spec_strip_trailing_eq)

lemma collapse_positional:
  "concat (map (\<lambda>i. if is_space (s ! i)
                     then (if (if i = 0 then p else is_space (s ! (i - 1))) then [] else [hyphen])
                     else [s ! i]) [0..<length s]) = collapse_from p s"
proof (induction s arbitrary: p)
  case Nil
  show ?case by simp
next
  case (Cons c cs)
  define F where "F = (\<lambda>i. if is_space ((c # cs) ! i)
                     then (if (if i = 0 then p else is_space ((c # cs) ! (i - 1))) then [] else [hyphen])
                     else [(c # cs) ! i])"
  define G where "G = (\<lambda>i. if is_space (cs ! i)
                     then (if (if i = 0 then is_space c else is_space (cs ! (i - 1))) then [] else [hyphen])
                     else [cs ! i])"
  have FG: "F (Suc i) = G i" for i
    by (cases i) (simp_all add: F_def G_def)
  have "concat (map F [0..<length (c # cs)]) = F 0 @ concat (map G [0..<length cs])"
    by (simp add: map_upt_Suc FG del: upt_Suc)
  also have "concat (map G [0..<length cs]) = collapse_from (is_space c) cs"
    unfolding G_def by (rule Cons.IH)
  also have "F 0 @ collapse_from (is_space c) cs = collapse_from p (c # cs)"
    by (simp add: F_def)
  finally show ?case
    unfolding F_def .
qed

lemma spec_collapse_eq: "spec_collapse s = collapse_from False s"
proof -
  have "spec_collapse s =
    concat (map (\<lambda>i. if is_space (s ! i)
                     then (if (if i = 0 then False else is_space (s ! (i - 1))) then [] else [hyphen])
                     else [s ! i]) [0..<length s])"
    unfolding spec_collapse_def run_start_def
    by (rule arg_cong [where f = concat], rule map_cong) auto
  then show ?thesis
    by (simp only: collapse_positional)
qed

lemma collapse_from_flag:
  "s = [] \<or> \<not> is_space (hd s) \<Longrightarrow> collapse_from p s = collapse_from q s"
  by (cases s) auto

lemma collapse_from_True_dropWhile:
  "collapse_from True s = collapse_from True (dropWhile is_space s)"
  by (induction s) auto

lemma replace_spaces_eq: "replace_spaces s = collapse_from False s"
proof (induction s rule: replace_spaces.induct)
  case 1
  show ?case by simp
next
  case (2 c cs)
  show ?case
  proof (cases "is_space c")
    case True
    have "dropWhile is_space cs = [] \<or> \<not> is_space (hd (dropWhile is_space cs))"
      by (metis hd_dropWhile)
    then have "collapse_from False (dropWhile is_space cs) = collapse_from True (dropWhile is_space cs)"
      by (rule collapse_from_flag)
    with True 2 show ?thesis
      using collapse_from_True_dropWhile [of cs] by simp
  next
    case False
    with 2 show ?thesis by simp
  qed
qed

text \<open>
  Claim C5.  For every non-empty custom name, the sanitized identifier the handler
  computes is the result of trimming white space at both ends, then replacing every
  maximal run of white space by one hyphen, then deleting every code unit outside
  \<open>[A-Za-z0-9_-]\<close>, in that order.
\<close>

theorem sanitizedName_refines_spec:
  "name \<noteq> [] \<Longrightarrow> sanitizedName name = spec_sanitize name"
  by (simp add: sanitizedName_def spec_sanitize_def strip_invalid_def
      spec_trim_eq spec_collapse_eq replace_spaces_eq)

theorem sanitizedName_refines_spec_witness:
  "lit '' a  b!c '' \<noteq> [] \<and> spec_sanitize (lit '' a  b!c '') = lit ''a-bc''"
proof -
  have h: "lit '' a  b!c '' \<noteq> []"
    by (simp add: lit_def)
  have "sanitizedName (lit '' a  b!c '') = lit ''a-bc''"
    by (simp add: sanitizedName_def lit_def trim_def is_space_def name_char_def
        strip_invalid_def hyphen_def)
  with h sanitizedName_refines_spec [OF h] show ?thesis
    by simp
qed

section \<open>Properties of the upload route\<close>

lemma find_key_None: "find (\<lambda>d. key d = sid) docs = None \<longleftrightarrow> sid \<notin> set (map key docs)"
  by (auto simp: find_None_iff)

lemma find_key_Some: "sid \<in> set (map key docs) \<Longrightarrow> \<exists>d. find (\<lambda>d. key d = sid) docs = Some d"
  using find_key_None [of key sid docs] by (cases "find (\<lambda>d. key d = sid) docs") auto

lemma truthy_Some: "truthy (Some s) \<longleftrightarrow> s \<noteq> []"
  by (simp add: truthy_def)

lemma sanitizedName_Nil: "sanitizedName [] = []"
  by (simp add: sanitizedName_def trim_def strip_invalid_def)

lemma registry_upload_any: "registry (upload_any w req) = registry w"
  by (simp add: upload_any_def)

lemma registry_upload_any_disk: "registry (upload_any_disk w req) = registry w"
  by (simp add: upload_any_disk_def)

lemma resolve_taken:
  assumes "customName req = Some name" and "sanitizedName name \<noteq> []"
    and "sanitizedName name \<in> set (map key (registry w))" and "\<not> find_fails e"
  shows "resolve_shortId key e w req file =
     (case destroy e w (filename file) of
        (Some err, w') \<Rightarrow> (Throw err, w')
      | (None, w') \<Rightarrow> (Return (json_error 409 ''This custom link name is already taken.''), w'))"
proof -
  from assms(2) have "name \<noteq> []"
    using sanitizedName_Nil by auto
  moreover obtain d where "find (\<lambda>d. key d = sanitizedName name) (registry w) = Some d"
    using find_key_Some [OF assms(3)] by blast
  ultimately show ?thesis
    using assms by (simp add: resolve_shortId_def truthy_Some findOne_def)
qed

lemma resolve_taken_local:
  assumes "customName req = Some name" and "sanitizedName name \<noteq> []"
    and "sanitizedName name \<in> set (map shortId_local (registry w))" and "\<not> find_fails e"
  shows "resolve_shortId_local e w req =
     (Return (json_error 409 ''This custom link name is already taken.''), w)"
proof -
  from assms(2) have "name \<noteq> []"
    using sanitizedName_Nil by auto
  moreover obtain d where "find (\<lambda>d. shortId_local d = sanitizedName name) (registry w) = Some d"
    using find_key_Some [OF assms(3)] by blast
  ultimately show ?thesis
    using assms by (simp add: resolve_shortId_local_def truthy_Some findOne_def)
qed

lemma resolve_free:
  assumes "customName req = Some name" and "sanitizedName name \<noteq> []"
    and "sanitizedName name \<notin> set (map key (registry w))" and "\<not> find_fails e"
  shows "resolve_shortId key e w req file = (Value (sanitizedName name), w)"
proof -
  from assms(2) have "name \<noteq> []"
    using sanitizedName_Nil by auto
  moreover have "find (\<lambda>d. key d = sanitizedName name) (registry w) = None"
    using assms(3) by (simp add: find_key_None)
  ultimately show ?thesis
    using assms by (simp add: resolve_shortId_def truthy_Some findOne_def)
qed

lemma resolve_generated:
  "\<not> truthy (customName req) \<Longrightarrow> resolve_shortId key e w req file = (Value (nanoid e 8), w)"
  by (simp add: resolve_shortId_def)

lemma resolve_invalid:
  assumes "customName req = Some name" and "name \<noteq> []" and "sanitizedName name = []"
  shows "resolve_shortId key e w req file =
     (Return (json_error 400 ''Custom name contains invalid characters.''), w)"
  using assms by (simp add: resolve_shortId_def truthy_Some)

lemma post_upload_taken:
  assumes "files req = file # rest" and "customName req = Some name"
    and "sanitizedName name \<noteq> []"
    and "sanitizedName name \<in> set (map shortId (registry w))"
    and "\<not> find_fails e"
  shows "post_upload e w req =
     (if destroy_fails e then
        (json_error 500 ''Server error while creating link.'',
         w\<lparr>blobs := blobs w \<union> set (map filename (files req)),
           blob_log := blob_log w @ map (\<lambda>f. Blob_write (filename f)) (files req)
                     @ [Blob_destroy (filename file)]\<rparr>)
      else
        (json_error 409 ''This custom link name is already taken.'',
         w\<lparr>blobs := (blobs w \<union> set (map filename (files req))) - {filename file},
           blob_log := blob_log w @ map (\<lambda>f. Blob_write (filename f)) (files req)
                     @ [Blob_destroy (filename file)]\<rparr>))"
proof -
  have "resolve_shortId shortId e (upload_any w req) req file =
     (case destroy e (upload_any w req) (filename file) of
        (Some err, w') \<Rightarrow> (Throw err, w')
      | (None, w') \<Rightarrow> (Return (json_error 409 ''This custom link name is already taken.''), w'))"
    using assms by (intro resolve_taken) (simp_all add: registry_upload_any)
  then show ?thesis
    using assms by (simp add: post_upload_def upload_handler_def upload_try_def destroy_def upload_any_def)
qed

lemma post_upload_typed_taken:
  assumes "files req = file # rest" and "customName req = Some name"
    and "sanitizedName name \<noteq> []"
    and "sanitizedName name \<in> set (map shortId_typed (registry w))"
    and "\<not> find_fails e"
  shows "post_upload_typed e w req =
     (if destroy_fails e then
        (json_error 500 ''An unexpected server error occurred.'',
         w\<lparr>blobs := blobs w \<union> set (map filename (files req)),
           blob_log := blob_log w @ map (\<lambda>f. Blob_write (filename f)) (files req)
                     @ [Blob_destroy (filename file)]\<rparr>)
      else
        (json_error 409 ''This custom link name is already taken.'',
         w\<lparr>blobs := (blobs w \<union> set (map filename (files req))) - {filename file},
           blob_log := blob_log w @ map (\<lambda>f. Blob_write (filename f)) (files req)
                     @ [Blob_destroy (filename file)]\<rparr>))"
proof -
  have "resolve_shortId shortId_typed e (upload_any w req) req file =
     (case destroy e (upload_any w req) (filename file) of
        (Some err, w') \<Rightarrow> (Throw err, w')
      | (None, w') \<Rightarrow> (Return (json_error 409 ''This custom link name is already taken.''), w'))"
    using assms by (intro resolve_taken) (simp_all add: registry_upload_any)
  then show ?thesis
    using assms by (simp add: post_upload_typed_def upload_handler_typed_def upload_try_typed_def
        destroy_def upload_any_def error_handler_def)
qed

lemma post_upload_local_taken:
  assumes "files req = file # rest" and "customName req = Some name"
    and "sanitizedName name \<noteq> []"
    and "sanitizedName name \<in> set (map shortId_local (registry w))"
    and "\<not> find_fails e"
  shows "post_upload_local e w req =
     (json_error 409 ''This custom link name is already taken.'', upload_any_disk w req)"
proof -
  have "resolve_shortId_local e (upload_any_disk w req) req =
     (Return (json_error 409 ''This custom link name is already taken.''), upload_any_disk w req)"
    using assms by (intro resolve_taken_local) (simp_all add: registry_upload_any_disk)
  then show ?thesis
    using assms by (simp add: post_upload_local_def upload_handler_local_def upload_try_local_def)
qed

text \<open>
  Claim C1, as amended.  An upload carries a file and a custom name whose sanitized form
  is not empty and is the \<open>shortId\<close> of a document in the registry.  In
  \<open>backend.js\<close>, when the lookup and the deletion both succeed, the response is 409
  (name taken), the blob of the file the handler used (the first of the request) is no
  longer in the blob store, and the registry is unchanged.  In the local-disk revision,
  when the lookup succeeds, the response is 409 and the registry is unchanged.
\<close>

theorem name_taken_deletes_blob:
  assumes "files req = file # rest" and "customName req = Some name"
    and "sanitizedName name \<noteq> []"
  shows "(\<not> find_fails e \<and> sanitizedName name \<in> set (map shortId (registry w)) \<and> \<not> destroy_fails e \<longrightarrow>
            fst (post_upload e w req) = json_error 409 ''This custom link name is already taken.'' \<and>
            filename file \<notin> blobs (snd (post_upload e w req)) \<and>
            registry (snd (post_upload e w req)) = registry w)
       \<and> (\<not> find_fails e0 \<and> sanitizedName name \<in> set (map shortId_local (registry w0)) \<longrightarrow>
            fst (post_upload_local e0 w0 req) = json_error 409 ''This custom link name is already taken.'' \<and>
            registry (snd (post_upload_local e0 w0 req)) = registry w0)"
proof (intro conjI impI)
  assume h: "\<not> find_fails e \<and> sanitizedName name \<in> set (map shortId (registry w)) \<and> \<not> destroy_fails e"
  then have eq: "post_upload e w req =
        (json_error 409 ''This custom link name is already taken.'',
         w\<lparr>blobs := (blobs w \<union> set (map filename (files req))) - {filename file},
           blob_log := blob_log w @ map (\<lambda>f. Blob_write (filename f)) (files req)
                     @ [Blob_destroy (filename file)]\<rparr>)"
    using post_upload_taken [OF assms, of w e] by simp
  show "fst (post_upload e w req) = json_error 409 ''This custom link name is already taken.''"
    by (simp add: eq)
  show "filename file \<notin> blobs (snd (post_upload e w req))"
    by (simp add: eq)
  show "registry (snd (post_upload e w req)) = registry w"
    by (simp add: eq)
next
  assume h: "\<not> find_fails e0 \<and> sanitizedName name \<in> set (map shortId_local (registry w0))"
  then have eq: "post_upload_local e0 w0 req =
     (json_error 409 ''This custom link name is already taken.'', upload_any_disk w0 req)"
    using post_upload_local_taken [OF assms, of w0 e0] by simp
  show "fst (post_upload_local e0 w0 req) = json_error 409 ''This custom link name is already taken.''"
    by (simp add: eq)
  show "registry (snd (post_upload_local e0 w0 req)) = registry w0"
    by (simp add: eq registry_upload_any_disk)
qed

lemmas demo_defs = demo_env_def demo_world_def demo_request_def demo_file_def demo_doc_def
  demo_local_doc_def demo_local_world_def demo_local_env_def
  demo_typed_doc_def demo_typed_world_def demo_typed_env_def

lemmas sanitize_eval = sanitizedName_def lit_def trim_def is_space_def name_char_def
  strip_invalid_def hyphen_def

text \<open>
  Claim C1 as stated fails where the deletion is rejected: the name \<open>demo\<close> is taken,
  the response is 500 and the blob just written stays in the store.
\<close>

theorem name_taken_failed_cleanup_counterexample:
  "sanitizedName (lit ''demo'') = shortId demo_doc \<and>
   fst (post_upload (demo_env\<lparr>destroy_fails := True\<rparr>) demo_world (demo_request (Some (lit ''demo''))))
     = json_error 500 ''Server error while creating link.'' \<and>
   filename demo_file \<in> blobs (snd (post_upload (demo_env\<lparr>destroy_fails := True\<rparr>) demo_world
     (demo_request (Some (lit ''demo'')))))"
  by (simp add: post_upload_def upload_handler_def upload_try_def resolve_shortId_def
      findOne_def destroy_def upload_any_def truthy_def demo_defs json_error_def sanitize_eval)


theorem name_taken_deletes_blob_witness:
  "fst (post_upload demo_env demo_world (demo_request (Some (lit ''demo''))))
     = json_error 409 ''This custom link name is already taken.'' \<and>
   filename demo_file \<notin> blobs (snd (post_upload demo_env demo_world (demo_request (Some (lit ''demo''))))) \<and>
   fst (post_upload_local demo_local_env demo_local_world (demo_request (Some (lit ''demo''))))
     = json_error 409 ''This custom link name is already taken.''"
proof -
  have a1: "files (demo_request (Some (lit ''demo''))) = demo_file # []"
    by (simp add: demo_defs)
  have a2: "customName (demo_request (Some (lit ''demo''))) = Some (lit ''demo'')"
    by (simp add: demo_defs)
  have a3: "sanitizedName (lit ''demo'') \<noteq> []"
    by (simp add: sanitize_eval)
  have a4: "\<not> find_fails demo_env \<and> sanitizedName (lit ''demo'') \<in> set (map shortId (registry demo_world))
      \<and> \<not> destroy_fails demo_env"
    by (simp add: demo_defs sanitize_eval)
  have a5: "\<not> find_fails demo_local_env \<and>
      sanitizedName (lit ''demo'') \<in> set (map shortId_local (registry demo_local_world))"
    by (simp add: demo_defs sanitize_eval)
  from name_taken_deletes_blob [OF a1 a2 a3, of demo_env demo_world demo_local_env demo_local_world] a4 a5
  show ?thesis
    by blast
qed

lemma post_upload_invalid:
  assumes "files req = file # rest" and "customName req = Some name" and "name \<noteq> []"
    and "sanitizedName name = []"
  shows "post_upload e w req =
     (json_error 400 ''Custom name contains invalid characters.'', upload_any w req)"
  using assms resolve_invalid [OF assms(2-4), of shortId e "upload_any w req" "file"]
  by (simp add: post_upload_def upload_handler_def upload_try_def)

lemma writes_upload_any:
  "filter is_write (blob_log (upload_any w req)) =
     filter is_write (blob_log w) @ map (\<lambda>f. Blob_write (filename f)) (files req)"
  by (simp add: upload_any_def filter_map comp_def)

text \<open>
  Claim C2, as amended.  An upload carries a file and a custom name that is not empty and
  sanitizes to the empty string.  The response is 400 (invalid name), the registry is
  unchanged, and the blob writes of the request are exactly those the upload middleware
  made before the handler ran, one for each file of the request.
\<close>

theorem invalid_name_rejected:
  assumes "files req = file # rest" and "customName req = Some name" and "name \<noteq> []"
    and "sanitizedName name = []"
  shows "fst (post_upload e w req) = json_error 400 ''Custom name contains invalid characters.'' \<and>
         registry (snd (post_upload e w req)) = registry w \<and>
         filter is_write (blob_log (snd (post_upload e w req))) =
           filter is_write (blob_log w) @ map (\<lambda>f. Blob_write (filename f)) (files req)"
  by (simp add: post_upload_invalid [OF assms] registry_upload_any writes_upload_any)

theorem invalid_name_rejected_witness:
  "sanitizedName (lit ''!!!'') = [] \<and>
   fst (post_upload demo_env demo_world (demo_request (Some (lit ''!!!''))))
     = json_error 400 ''Custom name contains invalid characters.'' \<and>
   filter is_write (blob_log (snd (post_upload demo_env demo_world (demo_request (Some (lit ''!!!''))))))
     = [Blob_write (lit ''b1'')]"
proof -
  have a1: "files (demo_request (Some (lit ''!!!''))) = demo_file # []"
    by (simp add: demo_defs)
  have a2: "customName (demo_request (Some (lit ''!!!''))) = Some (lit ''!!!'')"
    by (simp add: demo_defs)
  have a3: "lit ''!!!'' \<noteq> []"
    by (simp add: lit_def)
  have a4: "sanitizedName (lit ''!!!'') = []"
    by (simp add: sanitize_eval)
  from invalid_name_rejected [OF a1 a2 a3 a4, of demo_env demo_world] a4
  show ?thesis
    by (simp add: demo_defs)
qed

text \<open>
  Claim C2 as stated fails: for the custom name \<open>!!!\<close> the response is 400, yet the
  request has made one blob write, and the blob, absent before, is in the store afterwards.
\<close>

theorem invalid_name_blob_written_counterexample:
  "sanitizedName (lit ''!!!'') = [] \<and>
   status (fst (post_upload demo_env demo_world (demo_request (Some (lit ''!!!''))))) = 400 \<and>
   blob_log (snd (post_upload demo_env demo_world (demo_request (Some (lit ''!!!'')))))
     = [Blob_write (filename demo_file)] \<and>
   filename demo_file \<notin> blobs demo_world \<and>
   filename demo_file \<in> blobs (snd (post_upload demo_env demo_world (demo_request (Some (lit ''!!!'')))))"
  by (simp add: post_upload_def upload_handler_def upload_try_def resolve_shortId_def
      upload_any_def truthy_def demo_defs json_error_def sanitize_eval)


lemma save_conflict:
  "key d \<in> set (map key docs) \<Longrightarrow> \<exists>err. save key required e docs d = Inl err"
  by (simp add: save_def)

lemma save_fresh:
  "required d \<Longrightarrow> \<not> save_fails e \<Longrightarrow> key d \<notin> set (map key docs) \<Longrightarrow>
     save key required e docs d = Inr (docs @ [d])"
  by (simp add: save_def)

lemma resolve_passed:
  assumes "truthy (customName req) \<longrightarrow>
       \<not> find_fails e \<and> sanitizedName (the (customName req)) \<noteq> [] \<and>
       sanitizedName (the (customName req)) \<notin> set (map key (registry w))"
  shows "resolve_shortId key e w req file =
     (Value (if truthy (customName req) then sanitizedName (the (customName req)) else nanoid e 8), w)"
proof (cases "truthy (customName req)")
  case True
  then obtain name where n: "customName req = Some name"
    by (cases "customName req") (simp_all add: truthy_def)
  with True assms show ?thesis
    using resolve_free [OF n, of key w e "file"] by simp
next
  case False
  then show ?thesis
    by (simp add: resolve_generated)
qed

text \<open>
  Claim C3, as amended.  An upload carries a file; its custom name, if it has one, passes
  the lookup; and the chosen \<open>shortId\<close> (the sanitized custom name, or the generated
  identifier) is in the registry when \<open>save\<close> runs, because of a concurrent commit or
  because the generated identifier collides.  Then the response is 500 (server error),
  no document of this request is added, and the blob stays in the store.
\<close>

theorem commit_conflict_is_server_error:
  assumes "files req = file # rest"
    and "truthy (customName req) \<longrightarrow>
       \<not> find_fails e \<and> sanitizedName (the (customName req)) \<noteq> [] \<and>
       sanitizedName (the (customName req)) \<notin> set (map shortId (registry w))"
    and "(if truthy (customName req) then sanitizedName (the (customName req)) else nanoid e 8)
       \<in> set (map shortId (registry w @ concurrent e))"
  shows "fst (post_upload e w req) = json_error 500 ''Server error while creating link.'' \<and>
         registry (snd (post_upload e w req)) = registry w @ concurrent e \<and>
         filename file \<in> blobs (snd (post_upload e w req))"
proof -
  define sid where "sid = (if truthy (customName req) then sanitizedName (the (customName req)) else nanoid e 8)"
  have r: "resolve_shortId shortId e (upload_any w req) req file = (Value sid, upload_any w req)"
    unfolding sid_def using assms(2) by (intro resolve_passed) (simp add: registry_upload_any)
  define d where "d = \<lparr>shortId = sid, originalName = Some (originalname file),
                          fileUrl = path file, mimeType = Some (mimetype file),
                          cloudinaryId = Some (filename file), createdAt = now e\<rparr>"
  have "shortId d \<in> set (map shortId (registry (upload_any w req) @ concurrent e))"
    using assms(3) by (simp add: d_def sid_def registry_upload_any)
  then have "\<exists>err. save shortId file_doc_required e (registry (upload_any w req) @ concurrent e) d = Inl err"
    by (rule save_conflict)
  then obtain err where
    "save shortId file_doc_required e (registry (upload_any w req) @ concurrent e) d = Inl err"
    by blast
  then have "post_upload e w req =
      (json_error 500 ''Server error while creating link.'',
       (upload_any w req)\<lparr>registry := registry (upload_any w req) @ concurrent e\<rparr>)"
    using assms(1) r
    by (simp add: post_upload_def upload_handler_def upload_try_def d_def)
  then show ?thesis
    using assms(1) by (simp add: upload_any_def)
qed

lemma nanoid_demo: "generateCandidateId (\<lambda>i. 7 * i + 3) 8 = lit ''DKRYfmt0''"
  by code_simp

theorem commit_conflict_is_server_error_witness:
  "fst (post_upload (demo_env\<lparr>concurrent := [demo_doc\<lparr>shortId := lit ''race''\<rparr>]\<rparr>) demo_world
          (demo_request (Some (lit ''race''))))
     = json_error 500 ''Server error while creating link.'' \<and>
   filename demo_file \<in> blobs (snd (post_upload (demo_env\<lparr>concurrent := [demo_doc\<lparr>shortId := lit ''race''\<rparr>]\<rparr>)
          demo_world (demo_request (Some (lit ''race'')))))"
proof -
  let ?e = "demo_env\<lparr>concurrent := [demo_doc\<lparr>shortId := lit ''race''\<rparr>]\<rparr>"
  let ?r = "demo_request (Some (lit ''race''))"
  have a1: "files ?r = demo_file # []"
    by (simp add: demo_defs)
  have a2: "truthy (customName ?r) \<longrightarrow>
       \<not> find_fails ?e \<and> sanitizedName (the (customName ?r)) \<noteq> [] \<and>
       sanitizedName (the (customName ?r)) \<notin> set (map shortId (registry demo_world))"
    by (simp add: demo_defs sanitize_eval)
  have a3: "(if truthy (customName ?r) then sanitizedName (the (customName ?r)) else nanoid ?e 8)
       \<in> set (map shortId (registry demo_world @ concurrent ?e))"
    by (simp add: demo_defs sanitize_eval truthy_def)
  from commit_conflict_is_server_error [OF a1 a2 a3]
  show ?thesis
    by blast
qed

text \<open>
  Claim C3 as stated fails: the generated identifier is already a \<open>shortId\<close> of the
  registry, \<open>save\<close> is rejected by the unique index, and the response is 500, not 409.
\<close>

theorem commit_conflict_counterexample:
  "nanoid demo_env 8 = lit ''DKRYfmt0'' \<and>
   fst (post_upload demo_env (demo_world\<lparr>registry := [demo_doc\<lparr>shortId := lit ''DKRYfmt0''\<rparr>]\<rparr>)
          (demo_request None))
     = json_error 500 ''Server error while creating link.''"
  by (simp add: post_upload_def upload_handler_def upload_try_def resolve_shortId_def
      upload_any_def truthy_def demo_defs save_def file_doc_required_def nanoid_demo
      Let_def lit_def json_error_def)

text \<open>
  Claim C4, as amended.  An upload carries a file and a custom name whose sanitized form
  is taken, the lookup succeeds, and the deletion of the blob just written is rejected.
  Then the response is 500: in \<open>backend.js\<close> from the handler's \<open>catch\<close> block, in
  the resource-type revision from the global error handler.  The blob stays in the store.
\<close>

theorem cleanup_failure_is_server_error:
  assumes "files req = file # rest" and "customName req = Some name"
    and "sanitizedName name \<noteq> []"
  shows "(\<not> find_fails e \<and> sanitizedName name \<in> set (map shortId (registry w)) \<and> destroy_fails e \<longrightarrow>
            fst (post_upload e w req) = json_error 500 ''Server error while creating link.'' \<and>
            filename file \<in> blobs (snd (post_upload e w req)))
       \<and> (\<not> find_fails e1 \<and> sanitizedName name \<in> set (map shortId_typed (registry w1)) \<and> destroy_fails e1 \<longrightarrow>
            fst (post_upload_typed e1 w1 req) = json_error 500 ''An unexpected server error occurred.'' \<and>
            filename file \<in> blobs (snd (post_upload_typed e1 w1 req)))"
proof (intro conjI impI)
  assume h: "\<not> find_fails e \<and> sanitizedName name \<in> set (map shortId (registry w)) \<and> destroy_fails e"
  then have eq: "post_upload e w req =
        (json_error 500 ''Server error while creating link.'',
         w\<lparr>blobs := blobs w \<union> set (map filename (files req)),
           blob_log := blob_log w @ map (\<lambda>f. Blob_write (filename f)) (files req)
                     @ [Blob_destroy (filename file)]\<rparr>)"
    using post_upload_taken [OF assms, of w e] by simp
  show "fst (post_upload e w req) = json_error 500 ''Server error while creating link.''"
    by (simp add: eq)
  show "filename file \<in> blobs (snd (post_upload e w req))"
    using assms(1) by (simp add: eq)
next
  assume h: "\<not> find_fails e1 \<and> sanitizedName name \<in> set (map shortId_typed (registry w1)) \<and> destroy_fails e1"
  then have eq: "post_upload_typed e1 w1 req =
        (json_error 500 ''An unexpected server error occurred.'',
         w1\<lparr>blobs := blobs w1 \<union> set (map filename (files req)),
           blob_log := blob_log w1 @ map (\<lambda>f. Blob_write (filename f)) (files req)
                     @ [Blob_destroy (filename file)]\<rparr>)"
    using post_upload_typed_taken [OF assms, of w1 e1] by simp
  show "fst (post_upload_typed e1 w1 req) = json_error 500 ''An unexpected server error occurred.''"
    by (simp add: eq)
  show "filename file \<in> blobs (snd (post_upload_typed e1 w1 req))"
    using assms(1) by (simp add: eq)
qed

theorem cleanup_failure_is_server_error_witness:
  "fst (post_upload (demo_env\<lparr>destroy_fails := True\<rparr>) demo_world (demo_request (Some (lit '' demo ''))))
     = json_error 500 ''Server error while creating link.'' \<and>
   fst (post_upload_typed (demo_typed_env\<lparr>destroy_fails := True\<rparr>) demo_typed_world
          (demo_request (Some (lit '' demo ''))))
     = json_error 500 ''An unexpected server error occurred.''"
proof -
  let ?r = "demo_request (Some (lit '' demo ''))"
  have a1: "files ?r = demo_file # []"
    by (simp add: demo_defs)
  have a2: "customName ?r = Some (lit '' demo '')"
    by (simp add: demo_defs)
  have a3: "sanitizedName (lit '' demo '') \<noteq> []"
    by (simp add: sanitize_eval)
  have a4: "\<not> find_fails (demo_env\<lparr>destroy_fails := True\<rparr>) \<and>
      sanitizedName (lit '' demo '') \<in> set (map shortId (registry demo_world)) \<and>
      destroy_fails (demo_env\<lparr>destroy_fails := True\<rparr>)"
    by (simp add: demo_defs sanitize_eval)
  have a5: "\<not> find_fails (demo_typed_env\<lparr>destroy_fails := True\<rparr>) \<and>
      sanitizedName (lit '' demo '') \<in> set (map shortId_typed (registry demo_typed_world)) \<and>
      destroy_fails (demo_typed_env\<lparr>destroy_fails := True\<rparr>)"
    by (simp add: demo_defs sanitize_eval)
  from cleanup_failure_is_server_error [OF a1 a2 a3,
      of "demo_env\<lparr>destroy_fails := True\<rparr>" demo_world
         "demo_typed_env\<lparr>destroy_fails := True\<rparr>" demo_typed_world] a4 a5
  show ?thesis
    by blast
qed

text \<open>
  Claim C4 as stated fails in the resource-type revision: the name \<open>demo\<close> is taken,
  the deletion is rejected, and the client receives 500, not 409.
\<close>

theorem cleanup_failure_counterexample:
  "sanitizedName (lit ''demo'') = shortId_typed demo_typed_doc \<and>
   fst (post_upload_typed (demo_typed_env\<lparr>destroy_fails := True\<rparr>) demo_typed_world
          (demo_request (Some (lit ''demo''))))
     = json_error 500 ''An unexpected server error occurred.''"
  by (simp add: post_upload_typed_def upload_handler_typed_def upload_try_typed_def
      resolve_shortId_def findOne_def destroy_def upload_any_def truthy_def demo_defs
      error_handler_def sanitize_eval)

section \<open>Generated identifiers and absent custom names\<close>

lemma url_alphabet_name_chars: "list_all name_char (lit url_alphabet)"
  by (simp add: url_alphabet_def lit_def name_char_def)

lemma url_alphabet_length: "length (lit url_alphabet) = 64"
  by (simp add: url_alphabet_def lit_def)

lemma generateCandidateId_length: "length (generateCandidateId rnd n) = n"
  by (simp add: generateCandidateId_def)

lemma generateCandidateId_name_chars: "\<forall>c\<in>set (generateCandidateId rnd n). name_char c"
proof -
  have "name_char (lit url_alphabet ! (k mod 64))" for k
    using url_alphabet_name_chars url_alphabet_length
    by (simp add: list_all_length)
  then show ?thesis
    by (auto simp: generateCandidateId_def)
qed

lemma post_upload_generated:
  assumes "files req = file # rest" and "\<not> truthy (customName req)"
    and "nanoid e 8 \<noteq> []" and "path file \<noteq> []" and "\<not> save_fails e"
    and "nanoid e 8 \<notin> set (map shortId (registry w @ concurrent e))"
  shows "post_upload e w req =
     (json_link 200 (base_url e @ lit ''/file/'' @ nanoid e 8),
      (upload_any w req)\<lparr>registry := registry w @ concurrent e @
         [\<lparr>shortId = nanoid e 8, originalName = Some (originalname file),
           fileUrl = path file, mimeType = Some (mimetype file),
           cloudinaryId = Some (filename file), createdAt = now e\<rparr>]\<rparr>)"
proof -
  define d where "d = \<lparr>shortId = nanoid e 8, originalName = Some (originalname file),
                          fileUrl = path file, mimeType = Some (mimetype file),
                          cloudinaryId = Some (filename file), createdAt = now e\<rparr>"
  have r: "resolve_shortId shortId e (upload_any w req) req file = (Value (nanoid e 8), upload_any w req)"
    using assms(2) by (rule resolve_generated)
  have "save shortId file_doc_required e (registry (upload_any w req) @ concurrent e) d
      = Inr ((registry (upload_any w req) @ concurrent e) @ [d])"
    using assms by (intro save_fresh) (simp_all add: d_def file_doc_required_def registry_upload_any)
  then show ?thesis
    using assms(1) r
    by (simp add: post_upload_def upload_handler_def upload_try_def d_def registry_upload_any)
qed

text \<open>
  Claim C7.  An upload carries a file and no custom name (none, or the empty string), the
  generator is the one the specification describes, and the upload goes through: the
  blob's URL is there, \<open>save\<close> meets no fault and the generated identifier is not
  in the registry.  Then the identifier has length 8 and only characters of
  \<open>[A-Za-z0-9_-]\<close>, the response is 200 with the link that ends in
  \<open>/file/\<close> and the identifier, and the document added to the registry carries it as
  its \<open>shortId\<close>.
\<close>

theorem generated_shortId_shape:
  assumes "files req = file # rest" and "\<not> truthy (customName req)"
    and "nanoid e 8 = generateCandidateId rnd 8"
    and "path file \<noteq> []" and "\<not> save_fails e"
    and "nanoid e 8 \<notin> set (map shortId (registry w @ concurrent e))"
  shows "length (nanoid e 8) = 8 \<and> (\<forall>c\<in>set (nanoid e 8). name_char c) \<and>
     fst (post_upload e w req) = json_link 200 (base_url e @ lit ''/file/'' @ nanoid e 8) \<and>
     registry (snd (post_upload e w req)) = registry w @ concurrent e @
         [\<lparr>shortId = nanoid e 8, originalName = Some (originalname file),
           fileUrl = path file, mimeType = Some (mimetype file),
           cloudinaryId = Some (filename file), createdAt = now e\<rparr>]"
proof -
  have len: "length (nanoid e 8) = 8"
    by (simp add: assms(3) generateCandidateId_length)
  then have ne: "nanoid e 8 \<noteq> []"
    by auto
  have chars: "\<forall>c\<in>set (nanoid e 8). name_char c"
    unfolding assms(3) by (rule generateCandidateId_name_chars)
  show ?thesis
    using len chars post_upload_generated [OF assms(1,2) ne assms(4,5,6)] by simp
qed

theorem generated_shortId_shape_witness:
  "fst (post_upload demo_env demo_world (demo_request None))
     = json_link 200 (lit ''http://localhost:3000/file/DKRYfmt0'') \<and>
   length (nanoid demo_env 8) = 8 \<and> list_all name_char (nanoid demo_env 8)"
proof -
  have a1: "files (demo_request None) = demo_file # []"
    by (simp add: demo_defs)
  have a2: "\<not> truthy (customName (demo_request None))"
    by (simp add: demo_defs truthy_def)
  have a3: "nanoid demo_env 8 = generateCandidateId (\<lambda>i. 7 * i + 3) 8"
    by (simp add: demo_defs)
  have a4: "path demo_file \<noteq> []"
    by (simp add: demo_defs lit_def)
  have a5: "\<not> save_fails demo_env"
    by (simp add: demo_defs)
  have a6: "nanoid demo_env 8 \<notin> set (map shortId (registry demo_world @ concurrent demo_env))"
    by (simp add: demo_defs nanoid_demo lit_def)
  have b: "base_url demo_env @ lit ''/file/'' @ nanoid demo_env 8 = lit ''http://localhost:3000/file/DKRYfmt0''"
    by (simp add: demo_defs nanoid_demo base_url_def PORT_def truthy_def lit_def)
  from generated_shortId_shape [OF a1 a2 a3 a4 a5 a6] b
  show ?thesis
    by (simp add: list_all_iff)
qed

lemma resolve_empty:
  "resolve_shortId key e w (req\<lparr>customName := Some []\<rparr>) file = (Value (nanoid e 8), w)"
  by (simp add: resolve_shortId_def truthy_def)

lemma resolve_absent:
  "resolve_shortId key e w (req\<lparr>customName := None\<rparr>) file = (Value (nanoid e 8), w)"
  by (simp add: resolve_shortId_def truthy_def)

lemma resolve_local_generated:
  "\<not> truthy (customName req) \<Longrightarrow> resolve_shortId_local e w req = (Value (nanoid e 8), w)"
  by (simp add: resolve_shortId_local_def)

lemma resolve_local_empty:
  "resolve_shortId_local e w (req\<lparr>customName := Some []\<rparr>) = (Value (nanoid e 8), w)"
  by (simp add: resolve_shortId_local_def truthy_def)

lemma resolve_local_absent:
  "resolve_shortId_local e w (req\<lparr>customName := None\<rparr>) = (Value (nanoid e 8), w)"
  by (simp add: resolve_shortId_local_def truthy_def)

lemma upload_try_empty:
  "upload_try e w (req\<lparr>customName := Some []\<rparr>) file = upload_try e w (req\<lparr>customName := None\<rparr>) file"
  by (simp add: upload_try_def resolve_empty resolve_absent)

lemma upload_try_local_empty:
  "upload_try_local e w (req\<lparr>customName := Some []\<rparr>) file
     = upload_try_local e w (req\<lparr>customName := None\<rparr>) file"
  by (simp add: upload_try_local_def resolve_local_empty resolve_local_absent Let_def
      split: sum.splits)

lemma upload_any_customName:
  "upload_any w (req\<lparr>customName := c\<rparr>) = upload_any w req"
  by (simp add: upload_any_def)

lemma upload_any_disk_customName:
  "upload_any_disk w (req\<lparr>customName := c\<rparr>) = upload_any_disk w req"
  by (simp add: upload_any_disk_def)

lemma post_upload_local_generated:
  assumes "files req = file # rest" and "\<not> truthy (customName req)"
    and "nanoid e 8 \<noteq> []" and "path file \<noteq> []" and "\<not> save_fails e"
    and "nanoid e 8 \<notin> set (map shortId_local (registry w @ concurrent e))"
  shows "post_upload_local e w req =
     (json_link 200 (protocol req @ lit ''://'' @ template (host req) @ lit ''/file/'' @ nanoid e 8),
      (upload_any_disk w req)\<lparr>registry := registry w @ concurrent e @
         [\<lparr>shortId_local = nanoid e 8, originalName_local = Some (originalname file),
           filePath = path file, mimeType_local = Some (mimetype file),
           createdAt_local = now e\<rparr>]\<rparr>)"
proof -
  define d where "d = \<lparr>shortId_local = nanoid e 8, originalName_local = Some (originalname file),
                          filePath = path file, mimeType_local = Some (mimetype file),
                          createdAt_local = now e\<rparr>"
  have r: "resolve_shortId_local e (upload_any_disk w req) req
      = (Value (nanoid e 8), upload_any_disk w req)"
    using assms(2) by (rule resolve_local_generated)
  have "save shortId_local local_doc_required e (registry (upload_any_disk w req) @ concurrent e) d
      = Inr ((registry (upload_any_disk w req) @ concurrent e) @ [d])"
    using assms
    by (intro save_fresh) (simp_all add: d_def local_doc_required_def registry_upload_any_disk)
  then show ?thesis
    using assms(1) r
    by (simp add: post_upload_local_def upload_handler_local_def upload_try_local_def d_def
        registry_upload_any_disk)
qed

text \<open>
  Claim C10.  An upload whose \<open>customName\<close> field is present and is the empty string
  is handled as one without the field, in \<open>backend.js\<close> and in the local-disk
  revision: the whole route gives the same response and the same state, and the
  \<open>if (customName)\<close> statement neither sanitizes nor rejects but leaves
  \<open>nanoid(8)\<close> in \<open>shortId\<close>.  When such an upload carries a file and goes through
  (the blob's path is there, \<open>save\<close> meets no fault, the identifier is not in the
  registry) and the generator is the one the specification describes, the identifier has
  length 8, the response is 200 with the link that ends in \<open>/file/\<close> and the
  identifier, and the document added to the registry carries it as its \<open>shortId\<close>.
\<close>

theorem empty_customName_as_absent:
  "post_upload e w (req\<lparr>customName := Some []\<rparr>) = post_upload e w (req\<lparr>customName := None\<rparr>) \<and>
   post_upload_local e0 w0 (req\<lparr>customName := Some []\<rparr>)
     = post_upload_local e0 w0 (req\<lparr>customName := None\<rparr>) \<and>
   resolve_shortId shortId e w (req\<lparr>customName := Some []\<rparr>) file = (Value (nanoid e 8), w) \<and>
   resolve_shortId_local e0 w0 (req\<lparr>customName := Some []\<rparr>) = (Value (nanoid e0 8), w0) \<and>
   (files req = file # rest \<and> path file \<noteq> [] \<and> nanoid e 8 = generateCandidateId rnd 8 \<and>
    \<not> save_fails e \<and> nanoid e 8 \<notin> set (map shortId (registry w @ concurrent e)) \<longrightarrow>
      length (nanoid e 8) = 8 \<and>
      fst (post_upload e w (req\<lparr>customName := Some []\<rparr>))
        = json_link 200 (base_url e @ lit ''/file/'' @ nanoid e 8) \<and>
      registry (snd (post_upload e w (req\<lparr>customName := Some []\<rparr>)))
        = registry w @ concurrent e @
            [\<lparr>shortId = nanoid e 8, originalName = Some (originalname file),
              fileUrl = path file, mimeType = Some (mimetype file),
              cloudinaryId = Some (filename file), createdAt = now e\<rparr>]) \<and>
   (files req = file # rest \<and> path file \<noteq> [] \<and> nanoid e0 8 = generateCandidateId rnd0 8 \<and>
    \<not> save_fails e0 \<and> nanoid e0 8 \<notin> set (map shortId_local (registry w0 @ concurrent e0)) \<longrightarrow>
      length (nanoid e0 8) = 8 \<and>
      fst (post_upload_local e0 w0 (req\<lparr>customName := Some []\<rparr>))
        = json_link 200 (protocol req @ lit ''://'' @ template (host req) @ lit ''/file/''
                           @ nanoid e0 8) \<and>
      registry (snd (post_upload_local e0 w0 (req\<lparr>customName := Some []\<rparr>)))
        = registry w0 @ concurrent e0 @
            [\<lparr>shortId_local = nanoid e0 8, originalName_local = Some (originalname file),
              filePath = path file, mimeType_local = Some (mimetype file),
              createdAt_local = now e0\<rparr>])"
proof (intro conjI impI)
  let ?req = "req\<lparr>customName := Some []\<rparr>"
  have nt: "\<not> truthy (customName ?req)"
    by (simp add: truthy_def)
  show "post_upload e w ?req = post_upload e w (req\<lparr>customName := None\<rparr>)"
    by (cases "files req")
      (simp_all add: post_upload_def upload_handler_def upload_any_customName upload_try_empty)
  show "post_upload_local e0 w0 ?req = post_upload_local e0 w0 (req\<lparr>customName := None\<rparr>)"
    by (cases "files req")
      (simp_all add: post_upload_local_def upload_handler_local_def upload_any_disk_customName
        upload_try_local_empty)
  show "resolve_shortId shortId e w ?req file = (Value (nanoid e 8), w)"
    by (rule resolve_empty)
  show "resolve_shortId_local e0 w0 ?req = (Value (nanoid e0 8), w0)"
    by (rule resolve_local_empty)
  {
    assume h: "files req = file # rest \<and> path file \<noteq> [] \<and> nanoid e 8 = generateCandidateId rnd 8 \<and>
      \<not> save_fails e \<and> nanoid e 8 \<notin> set (map shortId (registry w @ concurrent e))"
    then have len: "length (nanoid e 8) = 8"
      by (simp add: generateCandidateId_length)
    then have ne: "nanoid e 8 \<noteq> []"
      by auto
    have f: "files ?req = file # rest"
      using h by simp
    have eq: "post_upload e w ?req =
       (json_link 200 (base_url e @ lit ''/file/'' @ nanoid e 8),
        (upload_any w ?req)\<lparr>registry := registry w @ concurrent e @
           [\<lparr>shortId = nanoid e 8, originalName = Some (originalname file),
             fileUrl = path file, mimeType = Some (mimetype file),
             cloudinaryId = Some (filename file), createdAt = now e\<rparr>]\<rparr>)"
      using h post_upload_generated [OF f nt ne, where w = w] by blast
    show "length (nanoid e 8) = 8"
      by (rule len)
    show "fst (post_upload e w ?req) = json_link 200 (base_url e @ lit ''/file/'' @ nanoid e 8)"
      by (simp add: eq)
    show "registry (snd (post_upload e w ?req)) = registry w @ concurrent e @
            [\<lparr>shortId = nanoid e 8, originalName = Some (originalname file),
              fileUrl = path file, mimeType = Some (mimetype file),
              cloudinaryId = Some (filename file), createdAt = now e\<rparr>]"
      by (simp add: eq)
  }
  {
    assume h: "files req = file # rest \<and> path file \<noteq> [] \<and> nanoid e0 8 = generateCandidateId rnd0 8 \<and>
      \<not> save_fails e0 \<and> nanoid e0 8 \<notin> set (map shortId_local (registry w0 @ concurrent e0))"
    then have len: "length (nanoid e0 8) = 8"
      by (simp add: generateCandidateId_length)
    then have ne: "nanoid e0 8 \<noteq> []"
      by auto
    have f: "files ?req = file # rest"
      using h by simp
    have eq: "post_upload_local e0 w0 ?req =
       (json_link 200 (protocol ?req @ lit ''://'' @ template (host ?req) @ lit ''/file/'' @ nanoid e0 8),
        (upload_any_disk w0 ?req)\<lparr>registry := registry w0 @ concurrent e0 @
           [\<lparr>shortId_local = nanoid e0 8, originalName_local = Some (originalname file),
             filePath = path file, mimeType_local = Some (mimetype file),
             createdAt_local = now e0\<rparr>]\<rparr>)"
      using h post_upload_local_generated [OF f nt ne, where w = w0] by blast
    show "length (nanoid e0 8) = 8"
      by (rule len)
    show "fst (post_upload_local e0 w0 ?req)
        = json_link 200 (protocol req @ lit ''://'' @ template (host req) @ lit ''/file/''
                           @ nanoid e0 8)"
      by (simp add: eq)
    show "registry (snd (post_upload_local e0 w0 ?req)) = registry w0 @ concurrent e0 @
            [\<lparr>shortId_local = nanoid e0 8, originalName_local = Some (originalname file),
              filePath = path file, mimeType_local = Some (mimetype file),
              createdAt_local = now e0\<rparr>]"
      by (simp add: eq)
  }
qed

theorem empty_customName_as_absent_witness:
  "post_upload demo_env demo_world (demo_request (Some []))
     = post_upload demo_env demo_world (demo_request None) \<and>
   length (nanoid demo_env 8) = 8 \<and>
   fst (post_upload demo_env demo_world (demo_request (Some [])))
     = json_link 200 (lit ''http://localhost:3000/file/DKRYfmt0'') \<and>
   map shortId (registry (snd (post_upload demo_env demo_world (demo_request (Some [])))))
     = [lit ''demo'', lit ''DKRYfmt0''] \<and>
   fst (post_upload_local demo_local_env demo_local_world (demo_request (Some [])))
     = json_link 200 (lit ''http://localhost:3000/file/DKRYfmt0'') \<and>
   map shortId_local
     (registry (snd (post_upload_local demo_local_env demo_local_world (demo_request (Some [])))))
     = [lit ''demo'', lit ''DKRYfmt0'']"
proof -
  have r1: "(demo_request None)\<lparr>customName := Some []\<rparr> = demo_request (Some [])"
    by (simp add: demo_request_def)
  have r2: "(demo_request None)\<lparr>customName := None\<rparr> = demo_request None"
    by (simp add: demo_request_def)
  have h: "files (demo_request None) = demo_file # [] \<and> path demo_file \<noteq> [] \<and>
      nanoid demo_env 8 = generateCandidateId (\<lambda>i. 7 * i + 3) 8 \<and> \<not> save_fails demo_env \<and>
      nanoid demo_env 8 \<notin> set (map shortId (registry demo_world @ concurrent demo_env))"
    by (simp add: demo_defs nanoid_demo lit_def)
  have h0: "files (demo_request None) = demo_file # [] \<and> path demo_file \<noteq> [] \<and>
      nanoid demo_local_env 8 = generateCandidateId (\<lambda>i. 7 * i + 3) 8 \<and>
      \<not> save_fails demo_local_env \<and>
      nanoid demo_local_env 8
        \<notin> set (map shortId_local (registry demo_local_world @ concurrent demo_local_env))"
    by (simp add: demo_defs nanoid_demo lit_def)
  have b: "base_url demo_env @ lit ''/file/'' @ nanoid demo_env 8
      = lit ''http://localhost:3000/file/DKRYfmt0''"
    by (simp add: demo_defs nanoid_demo base_url_def PORT_def truthy_def lit_def)
  have b0: "protocol (demo_request None) @ lit ''://'' @ template (host (demo_request None))
        @ lit ''/file/'' @ nanoid demo_local_env 8
      = lit ''http://localhost:3000/file/DKRYfmt0''"
    by (simp add: demo_defs nanoid_demo template_def lit_def)
  have n: "nanoid demo_env 8 = lit ''DKRYfmt0''" "nanoid demo_local_env 8 = lit ''DKRYfmt0''"
    by (simp_all add: demo_defs nanoid_demo)
  have g: "map shortId (registry demo_world @ concurrent demo_env) = [lit ''demo'']"
    "map shortId_local (registry demo_local_world @ concurrent demo_local_env) = [lit ''demo'']"
    by (simp_all add: demo_defs)
  note t = empty_customName_as_absent [of demo_env demo_world "demo_request None"
      demo_local_env demo_local_world demo_file "[]" "\<lambda>i. 7 * i + 3" "\<lambda>i. 7 * i + 3", unfolded r1 r2]
  from t have c1: "post_upload demo_env demo_world (demo_request (Some []))
     = post_upload demo_env demo_world (demo_request None)"
    by blast
  from t h have c2: "length (nanoid demo_env 8) = 8"
    and c3: "fst (post_upload demo_env demo_world (demo_request (Some [])))
        = json_link 200 (base_url demo_env @ lit ''/file/'' @ nanoid demo_env 8)"
    and c4: "registry (snd (post_upload demo_env demo_world (demo_request (Some []))))
        = registry demo_world @ concurrent demo_env @
            [\<lparr>shortId = nanoid demo_env 8, originalName = Some (originalname demo_file),
              fileUrl = path demo_file, mimeType = Some (mimetype demo_file),
              cloudinaryId = Some (filename demo_file), createdAt = now demo_env\<rparr>]"
    by blast+
  from t h0 have c5: "fst (post_upload_local demo_local_env demo_local_world (demo_request (Some [])))
        = json_link 200 (protocol (demo_request None) @ lit ''://''
            @ template (host (demo_request None)) @ lit ''/file/'' @ nanoid demo_local_env 8)"
    and c6: "registry (snd (post_upload_local demo_local_env demo_local_world (demo_request (Some []))))
        = registry demo_local_world @ concurrent demo_local_env @
            [\<lparr>shortId_local = nanoid demo_local_env 8,
              originalName_local = Some (originalname demo_file),
              filePath = path demo_file, mimeType_local = Some (mimetype demo_file),
              createdAt_local = now demo_local_env\<rparr>]"
    by blast+
  have d4: "map shortId (registry (snd (post_upload demo_env demo_world (demo_request (Some [])))))
     = [lit ''demo'', lit ''DKRYfmt0'']"
    unfolding c4 using g(1) by (simp add: n)
  have d6: "map shortId_local
     (registry (snd (post_upload_local demo_local_env demo_local_world (demo_request (Some [])))))
     = [lit ''demo'', lit ''DKRYfmt0'']"
    unfolding c6 using g(2) by (simp add: n)
  from c1 c2 c3 [unfolded b] d4 c5 [unfolded b0] d6 show ?thesis
    by blast
qed

section \<open>Properties of the download route\<close>

text \<open>
  Claim C8.  Whatever documents the registry holds, when the lookup completes and no
  document has the requested \<open>shortId\<close>, \<open>GET /file/:shortId\<close> answers 404 with the
  page that says the file was not found, and leaves the state as it was: no blob
  operation is attempted.  This holds in \<open>backend.js\<close>, in the proxy revision and in
  the local-disk revision.
\<close>

theorem unknown_id_not_found:
  "(\<not> find_fails e \<and> sid \<notin> set (map shortId (registry w)) \<longrightarrow>
      get_file e w sid = (html 404 not_found_page, w) \<and>
      get_file_proxy e w sid = (html 404 not_found_page, w)) \<and>
   (\<not> find_fails e0 \<and> sid \<notin> set (map shortId_local (registry w0)) \<longrightarrow>
      get_file_local e0 w0 sid = (html 404 not_found_page, w0))"
proof (intro conjI impI)
  assume "\<not> find_fails e \<and> sid \<notin> set (map shortId (registry w))"
  then have f: "findOne shortId e (registry w) sid = Inr None"
    by (simp add: findOne_def find_key_None)
  show "get_file e w sid = (html 404 not_found_page, w)"
    by (simp add: get_file_def f)
  show "get_file_proxy e w sid = (html 404 not_found_page, w)"
    by (simp add: get_file_proxy_def f)
next
  assume "\<not> find_fails e0 \<and> sid \<notin> set (map shortId_local (registry w0))"
  then have f: "findOne shortId_local e0 (registry w0) sid = Inr None"
    by (simp add: findOne_def find_key_None)
  show "get_file_local e0 w0 sid = (html 404 not_found_page, w0)"
    by (simp add: get_file_local_def f)
qed

theorem unknown_id_not_found_witness:
  "get_file demo_env demo_world (lit ''dem'') = (html 404 not_found_page, demo_world) \<and>
   get_file_proxy demo_env demo_world (lit ''dem'') = (html 404 not_found_page, demo_world) \<and>
   get_file_local demo_local_env demo_local_world (lit ''dem'')
     = (html 404 not_found_page, demo_local_world) \<and>
   status (html 404 not_found_page) = 404"
proof -
  have a1: "\<not> find_fails demo_env \<and> lit ''dem'' \<notin> set (map shortId (registry demo_world))"
    by (simp add: demo_defs lit_def)
  have a2: "\<not> find_fails demo_local_env \<and>
      lit ''dem'' \<notin> set (map shortId_local (registry demo_local_world))"
    by (simp add: demo_defs lit_def)
  from unknown_id_not_found [of demo_env "lit ''dem''" demo_world demo_local_env demo_local_world] a1 a2
  show ?thesis
    by (simp add: html_def)
qed

lemma get_file_proxy_found:
  assumes "\<not> find_fails e" and "find (\<lambda>d. shortId d = sid) (registry w) = Some file"
  shows "get_file_proxy e w sid =
     (case axios e (proxy_request file) of
        Inl err \<Rightarrow> proxy_catch fresh_response err
      | Inr data \<Rightarrow>
          (case setHeader fresh_response ''Content-Type'' (Some (proxy_content_type file)) of
             Inl err \<Rightarrow> proxy_catch fresh_response err
           | Inr res1 \<Rightarrow>
               (case setHeader res1 ''Content-Disposition'' (Some (attachment (originalName file))) of
                  Inl err \<Rightarrow> proxy_catch res1 err
                | Inr res2 \<Rightarrow> pipe data res2)),
      w\<lparr>blob_log := blob_log w @ [Blob_fetch (proxy_request file)]\<rparr>)"
proof -
  have ct: "(if truthy (mimeType file) then mimeType file else Some (lit ''application/octet-stream''))
      = Some (proxy_content_type file)"
    by (cases "mimeType file") (simp_all add: proxy_content_type_def truthy_def)
  have f: "findOne shortId e (registry w) sid = Inr (Some file)"
    using assms by (simp add: findOne_def)
  show ?thesis
  proof (cases "axios e (proxy_request file)")
    case (Inl err)
    then show ?thesis
      by (simp add: get_file_proxy_def f Let_def proxy_request_def)
  next
    case (Inr data)
    then show ?thesis
      by (simp add: get_file_proxy_def f Let_def proxy_request_def ct del: if_split
          split: sum.splits)
  qed
qed

text \<open>
  Claim C9, as amended.  In the proxy revision, for a document found by the lookup: one
  fetch of the document's URL is made, with a timeout of 15000 milliseconds; when the
  fetch is rejected as timed out the response is 504; when it is rejected with an
  upstream response of status 404 (and not as timed out) the response is 404; when it is
  rejected in any other way the response is 500; when it resolves and the stream ends
  normally, and both header values are legal, the response is 200 with the bytes piped
  through, \<open>Content-Type\<close> the document's \<open>mimeType\<close> (or
  \<open>application/octet-stream\<close> when the document has none) and
  \<open>Content-Disposition\<close> an attachment named by the document's \<open>originalName\<close>.
\<close>

theorem proxy_stream_responses:
  assumes "\<not> find_fails e" and "find (\<lambda>d. shortId d = sid) (registry w) = Some file"
  shows "blob_log (snd (get_file_proxy e w sid)) = blob_log w @ [Blob_fetch (proxy_request file)] \<and>
     timeout (proxy_request file) = 15000 \<and> url (proxy_request file) = fileUrl file \<and>
     (axios e (proxy_request file) = Inl axios_timeout \<longrightarrow>
        fst (get_file_proxy e w sid) = html 504
          ''<h1>Gateway Timeout</h1><p>The server took too long to retrieve the file from storage.</p>'') \<and>
     (axios e (proxy_request file) = Inl (Axios_error c (Some 404)) \<and> c \<noteq> Some ''ECONNABORTED'' \<longrightarrow>
        fst (get_file_proxy e w sid) = html 404
          ''<h1>File not found on storage</h1><p>The file may have been deleted.</p>'') \<and>
     (axios e (proxy_request file) = Inl err \<and> error_code err \<noteq> Some ''ECONNABORTED'' \<and>
        error_response_status err \<noteq> Some 404 \<longrightarrow>
        fst (get_file_proxy e w sid) = html 500 ''<h1>Server error while retrieving file</h1>'') \<and>
     (axios e (proxy_request file) = Inr (Upstream bs False) \<and>
        valid_header_value (proxy_content_type file) \<and>
        valid_header_value (attachment (originalName file)) \<longrightarrow>
        fst (get_file_proxy e w sid) =
          \<lparr>status = 200,
           headers = [(''Content-Type'', proxy_content_type file),
                      (''Content-Disposition'', attachment (originalName file))],
           body = Piped bs True\<rparr>)"
proof (intro conjI impI)
  note found = get_file_proxy_found [OF assms]
  show "blob_log (snd (get_file_proxy e w sid)) = blob_log w @ [Blob_fetch (proxy_request file)]"
    by (simp add: found)
  show "timeout (proxy_request file) = 15000"
    by (simp add: proxy_request_def)
  show "url (proxy_request file) = fileUrl file"
    by (simp add: proxy_request_def)
  show "fst (get_file_proxy e w sid) = html 504
          ''<h1>Gateway Timeout</h1><p>The server took too long to retrieve the file from storage.</p>''"
    if "axios e (proxy_request file) = Inl axios_timeout"
    using that by (simp add: found proxy_catch_def axios_timeout_def fresh_response_def html_def)
  show "fst (get_file_proxy e w sid) = html 404
          ''<h1>File not found on storage</h1><p>The file may have been deleted.</p>''"
    if "axios e (proxy_request file) = Inl (Axios_error c (Some 404)) \<and> c \<noteq> Some ''ECONNABORTED''"
    using that by (simp add: found proxy_catch_def fresh_response_def html_def)
  show "fst (get_file_proxy e w sid) = html 500 ''<h1>Server error while retrieving file</h1>''"
    if "axios e (proxy_request file) = Inl err \<and> error_code err \<noteq> Some ''ECONNABORTED'' \<and>
        error_response_status err \<noteq> Some 404"
    using that by (simp add: found proxy_catch_def fresh_response_def html_def)
  show "fst (get_file_proxy e w sid) =
          \<lparr>status = 200,
           headers = [(''Content-Type'', proxy_content_type file),
                      (''Content-Disposition'', attachment (originalName file))],
           body = Piped bs True\<rparr>"
    if "axios e (proxy_request file) = Inr (Upstream bs False) \<and>
        valid_header_value (proxy_content_type file) \<and>
        valid_header_value (attachment (originalName file))"
    using that by (simp add: found setHeader_def pipe_def fresh_response_def)
qed


lemma find_demo: "find (\<lambda>d. shortId d = lit ''demo'') (registry demo_world) = Some demo_doc"
  by (simp add: demo_defs)

lemma demo_headers_valid:
  "valid_header_value (proxy_content_type demo_doc) \<and>
   valid_header_value (attachment (originalName demo_doc))"
  by (simp add: valid_header_value_def proxy_content_type_def attachment_def template_def
      truthy_def demo_defs lit_def)

theorem proxy_stream_responses_witness:
  "fst (get_file_proxy demo_env demo_world (lit ''demo'')) =
     \<lparr>status = 200,
      headers = [(''Content-Type'', lit ''application/pdf''),
                 (''Content-Disposition'', attachment (Some (lit ''cv.pdf'')))],
      body = Piped [0x25, 0x50, 0x44, 0x46] True\<rparr> \<and>
   blob_log (snd (get_file_proxy demo_env demo_world (lit ''demo''))) =
     [Blob_fetch \<lparr>http_method = ''GET'', url = fileUrl demo_doc, responseType = ''stream'',
                  timeout = 15000\<rparr>] \<and>
   fst (get_file_proxy (demo_env\<lparr>axios := \<lambda>cfg. Inl axios_timeout\<rparr>) demo_world (lit ''demo'')) =
     html 504
       ''<h1>Gateway Timeout</h1><p>The server took too long to retrieve the file from storage.</p>'' \<and>
   fst (get_file_proxy (demo_env\<lparr>axios := \<lambda>cfg. Inl (Axios_error (Some ''ERR_BAD_REQUEST'') (Some 404))\<rparr>)
          demo_world (lit ''demo'')) =
     html 404 ''<h1>File not found on storage</h1><p>The file may have been deleted.</p>'' \<and>
   fst (get_file_proxy (demo_env\<lparr>axios := \<lambda>cfg. Inl (Axios_error (Some ''ECONNRESET'') None)\<rparr>)
          demo_world (lit ''demo'')) =
     html 500 ''<h1>Server error while retrieving file</h1>''"
proof -
  let ?t = "demo_env\<lparr>axios := \<lambda>cfg. Inl axios_timeout\<rparr>"
  let ?n = "demo_env\<lparr>axios := \<lambda>cfg. Inl (Axios_error (Some ''ERR_BAD_REQUEST'') (Some 404))\<rparr>"
  let ?r = "demo_env\<lparr>axios := \<lambda>cfg. Inl (Axios_error (Some ''ECONNRESET'') None)\<rparr>"
  have a: "\<not> find_fails demo_env" "\<not> find_fails ?t" "\<not> find_fails ?n" "\<not> find_fails ?r"
    by (simp_all add: demo_env_def)
  have ok: "axios demo_env (proxy_request demo_doc) = Inr (Upstream [0x25, 0x50, 0x44, 0x46] False)"
    by (simp add: demo_env_def)
  have ct: "proxy_content_type demo_doc = lit ''application/pdf''"
    by (simp add: proxy_content_type_def truthy_def demo_doc_def lit_def)
  have on: "originalName demo_doc = Some (lit ''cv.pdf'')"
    by (simp add: demo_doc_def)
  have rq: "proxy_request demo_doc =
      \<lparr>http_method = ''GET'', url = fileUrl demo_doc, responseType = ''stream'', timeout = 15000\<rparr>"
    by (simp add: proxy_request_def)
  have bw: "blob_log demo_world = []"
    by (simp add: demo_world_def)
  have p1: "fst (get_file_proxy demo_env demo_world (lit ''demo'')) =
     \<lparr>status = 200,
      headers = [(''Content-Type'', lit ''application/pdf''),
                 (''Content-Disposition'', attachment (Some (lit ''cv.pdf'')))],
      body = Piped [0x25, 0x50, 0x44, 0x46] True\<rparr>"
    using proxy_stream_responses [OF a(1) find_demo, where bs = "[0x25, 0x50, 0x44, 0x46]"]
      ok demo_headers_valid
    by (simp add: ct on)
  have p2: "blob_log (snd (get_file_proxy demo_env demo_world (lit ''demo''))) =
     [Blob_fetch \<lparr>http_method = ''GET'', url = fileUrl demo_doc, responseType = ''stream'',
                  timeout = 15000\<rparr>]"
    using proxy_stream_responses [OF a(1) find_demo]
    by (simp add: rq bw)
  have p3: "fst (get_file_proxy ?t demo_world (lit ''demo'')) = html 504
       ''<h1>Gateway Timeout</h1><p>The server took too long to retrieve the file from storage.</p>''"
    using proxy_stream_responses [OF a(2) find_demo]
    by simp
  have p4: "fst (get_file_proxy ?n demo_world (lit ''demo'')) =
     html 404 ''<h1>File not found on storage</h1><p>The file may have been deleted.</p>''"
    using proxy_stream_responses [OF a(3) find_demo, where c = "Some ''ERR_BAD_REQUEST''"]
    by simp
  have p5: "fst (get_file_proxy ?r demo_world (lit ''demo'')) =
     html 500 ''<h1>Server error while retrieving file</h1>''"
    using proxy_stream_responses [OF a(4) find_demo, where err = "Axios_error (Some ''ECONNRESET'') None"]
    by simp
  from p1 p2 p3 p4 p5 show ?thesis
    by blast
qed

text \<open>
  Claim C9 as stated fails: the document is found, the upstream answers 503, which is
  neither a timeout nor a 404, and the response is 500; nothing is piped.
\<close>

theorem proxy_other_failure_counterexample:
  "find (\<lambda>d. shortId d = lit ''demo'') (registry demo_world) = Some demo_doc \<and>
   fst (get_file_proxy
          (demo_env\<lparr>axios := \<lambda>cfg. Inl (Axios_error (Some ''ERR_BAD_RESPONSE'') (Some 503))\<rparr>)
          demo_world (lit ''demo''))
     = html 500 ''<h1>Server error while retrieving file</h1>''"
  by (simp add: get_file_proxy_def findOne_def proxy_catch_def demo_defs fresh_response_def html_def)

subsection \<open>Further branches of the download route\<close>

text \<open>
  The local-disk revision sends the file when it is on the disk; when it is not, the
  final handler of Express answers 404.
\<close>

lemma get_file_local_found:
  "fst (get_file_local demo_local_env demo_local_world (lit ''demo'')) =
     \<lparr>status = 200, headers = [(''Content-Type'', lit ''application/pdf'')],
      body = Send_file (lit ''uploads/1-2.pdf'')\<rparr>"
  by (simp add: get_file_local_def findOne_def setHeader_def valid_header_value_def sendFile_def
      fresh_response_def demo_defs lit_def)

lemma get_file_local_missing:
  "fst (get_file_local demo_local_env (demo_local_world\<lparr>blobs := {}\<rparr>) (lit ''demo'')) =
     \<lparr>status = 404, headers = [], body = Error_page\<rparr>"
  by (simp add: get_file_local_def findOne_def setHeader_def valid_header_value_def sendFile_def
      fresh_response_def demo_defs lit_def)

text \<open>
  In the proxy revision a file name that is not a legal header value makes the second
  \<open>setHeader\<close> throw; the \<open>catch\<close> block answers 500 and the content type set before
  stays in the response.
\<close>

lemma get_file_proxy_illegal_name:
  "fst (get_file_proxy demo_env
          (demo_world\<lparr>registry := [demo_doc\<lparr>originalName := Some [0x4E2D, 0x6587]\<rparr>]\<rparr>)
          (lit ''demo'')) =
     \<lparr>status = 500, headers = [(''Content-Type'', lit ''application/pdf'')],
      body = Html ''<h1>Server error while retrieving file</h1>''\<rparr>"
  by (simp add: get_file_proxy_def findOne_def setHeader_def valid_header_value_def
      proxy_catch_def attachment_def template_def truthy_def fresh_response_def demo_defs lit_def)

end
